theory Spec2Isabelle
  imports Complex_Main "HOL-Library.Multiset"
begin

section \<open>Data model (types.ts)\<close>

text \<open>
  JavaScript strings are modelled as \<open>string\<close>; text outside ASCII is written as its
  UTF-8 bytes. The optional fields of an exercise are \<open>option\<close> values, \<open>None\<close> for
  a field the object literal does not set.
\<close>

datatype Level = Beginner | Intermediate | Advanced

datatype Topic = DailyLife | Professional

datatype ExerciseType = Flashcard | GuessMeaning | GuessWord | FillBlank | Matching | Listening

record VocabularyItem =
  id_v :: string
  word :: string
  pronunciation :: string
  definition_v :: string
  vietnameseDefinition :: string
  partOfSpeech :: string
  exampleSentence :: string
  exampleSentenceBlank :: string
  synonyms :: "string list"
  imageKeyword :: string

record MatchingPair =
  wordId :: string
  definition_p :: string

record Exercise =
  id_ex :: string
  type_ex :: ExerciseType
  targetWordId :: string
  question :: string
  options :: "string list option"
  correctOptionIndex :: "int option"
  matchingPairs :: "MatchingPair list option"

record UserState =
  xp :: int
  streak_u :: int
  currentLevel :: Level
  currentTopic :: Topic

record FeedbackData =
  isCorrect :: bool
  message :: string
  hint :: "string option"

section \<open>Exercise generator (createExercises)\<close>

text \<open>
  \<open>Array.prototype.indexOf\<close>: the first position of the element, \<open>-1\<close> when it does
  not occur.
\<close>

fun indexOf :: "'a list \<Rightarrow> 'a \<Rightarrow> int" where
  "indexOf [] x = -1"
| "indexOf (y # ys) x =
     (if y = x then 0 else (let r = indexOf ys x in if r < 0 then -1 else r + 1))"

text \<open>
  \<open>sort(() => Math.random() - 0.5)\<close> is the only source of randomness. Its result is
  taken from a parameter: \<open>sh k xs\<close> is the array the \<open>k\<close>-th random sort of a run
  leaves when it is given \<open>xs\<close>. A sort rearranges the array it is given, which is
  the predicate \<open>shuffles\<close>; the theorems that need it assume it.
\<close>

type_synonym shuffle = "nat \<Rightarrow> string list \<Rightarrow> string list"

definition shuffles :: "shuffle \<Rightarrow> bool" where
  "shuffles sh = (\<forall>k xs. mset (sh k xs) = mset xs)"

text \<open>
  The distractors shown with an item: the Vietnamese definitions, and the headwords, of the
  first three items with another identifier (\<open>filter\<close>, \<open>map\<close>, \<open>slice(0, 3)\<close>).
\<close>

definition distractors :: "VocabularyItem list \<Rightarrow> VocabularyItem \<Rightarrow> string list" where
  "distractors vocab item =
     take 3 (map vietnameseDefinition (filter (\<lambda>v. id_v v \<noteq> id_v item) vocab))"

definition wordDistractors :: "VocabularyItem list \<Rightarrow> VocabularyItem \<Rightarrow> string list" where
  "wordDistractors vocab item =
     take 3 (map word (filter (\<lambda>v. id_v v \<noteq> id_v item) vocab))"

text \<open>The body of \<open>vocab.forEach\<close>: the five exercises pushed for one item.\<close>

definition itemExercises :: "shuffle \<Rightarrow> nat \<Rightarrow> VocabularyItem list \<Rightarrow> VocabularyItem \<Rightarrow> Exercise list" where
  "itemExercises sh k vocab item =
     (let optionsVN = sh k (vietnameseDefinition item # distractors vocab item);
          optionsEN = sh (k + 1) (word item # wordDistractors vocab item)
      in [\<lparr>id_ex = ''fc-'' @ id_v item, type_ex = Flashcard, targetWordId = id_v item,
            question = word item, options = None, correctOptionIndex = None,
            matchingPairs = None\<rparr>,
          \<lparr>id_ex = ''gm-'' @ id_v item, type_ex = GuessMeaning, targetWordId = id_v item,
            question = word item, options = Some optionsVN,
            correctOptionIndex = Some (indexOf optionsVN (vietnameseDefinition item)),
            matchingPairs = None\<rparr>,
          \<lparr>id_ex = ''gw-'' @ id_v item, type_ex = GuessWord, targetWordId = id_v item,
            question = vietnameseDefinition item, options = Some optionsEN,
            correctOptionIndex = Some (indexOf optionsEN (word item)),
            matchingPairs = None\<rparr>,
          \<lparr>id_ex = ''fb-'' @ id_v item, type_ex = FillBlank, targetWordId = id_v item,
            question = exampleSentenceBlank item, options = None, correctOptionIndex = None,
            matchingPairs = None\<rparr>,
          \<lparr>id_ex = ''ls-'' @ id_v item, type_ex = Listening, targetWordId = id_v item,
            question = word item, options = Some optionsVN,
            correctOptionIndex = Some (indexOf optionsVN (vietnameseDefinition item)),
            matchingPairs = None\<rparr>])"

text \<open>
  The \<open>forEach\<close> loop over the remaining items, pushing onto \<open>exercises\<close>; \<open>k\<close> counts
  the random sorts done so far.
\<close>

fun forEach_push :: "shuffle \<Rightarrow> VocabularyItem list \<Rightarrow> VocabularyItem list \<Rightarrow> nat \<Rightarrow> Exercise list \<Rightarrow> Exercise list" where
  "forEach_push sh vocab [] k exercises = exercises"
| "forEach_push sh vocab (item # rest) k exercises =
     forEach_push sh vocab rest (k + 2) (exercises @ itemExercises sh k vocab item)"

definition matchQuestion :: string where
  "matchQuestion = ''Gh'' @ [CHR 0xC3, CHR 0xA9] @ ''p t'' @ [CHR 0xE1, CHR 0xBB, CHR 0xAB]
     @ '' v'' @ [CHR 0xE1, CHR 0xBB, CHR 0x9B] @ ''i ngh'' @ [CHR 0xC4, CHR 0xA9] @ ''a''"

definition matchAll :: "VocabularyItem list \<Rightarrow> Exercise" where
  "matchAll vocab =
     \<lparr>id_ex = ''match-all'', type_ex = Matching, targetWordId = ''all'',
      question = matchQuestion, options = None, correctOptionIndex = None,
      matchingPairs = Some (map (\<lambda>v. \<lparr>wordId = id_v v, definition_p = vietnameseDefinition v\<rparr>) vocab)\<rparr>"

definition createExercises :: "shuffle \<Rightarrow> VocabularyItem list \<Rightarrow> Exercise list" where
  "createExercises sh vocab = forEach_push sh vocab vocab 0 [] @ [matchAll vocab]"

section \<open>Shape of the generated sequence\<close>

lemma length_itemExercises: "length (itemExercises sh k vocab item) = 5"
  by (simp add: itemExercises_def Let_def)

lemma forEach_push_append:
  "forEach_push sh vocab items k acc = acc @ forEach_push sh vocab items k []"
proof (induction items arbitrary: k acc)
  case Nil
  show ?case by simp
next
  case (Cons item rest)
  have "forEach_push sh vocab (item # rest) k acc
      = (acc @ itemExercises sh k vocab item) @ forEach_push sh vocab rest (k + 2) []"
    using Cons.IH [of "k + 2" "acc @ itemExercises sh k vocab item"] by simp
  also have "\<dots> = acc @ (itemExercises sh k vocab item @ forEach_push sh vocab rest (k + 2) [])"
    by simp
  also have "\<dots> = acc @ forEach_push sh vocab (item # rest) k []"
    using Cons.IH [of "k + 2" "itemExercises sh k vocab item"] by simp
  finally show ?case .
qed

lemma forEach_push_Cons:
  "forEach_push sh vocab (item # rest) k [] =
     itemExercises sh k vocab item @ forEach_push sh vocab rest (k + 2) []"
  using forEach_push_append [of sh vocab rest "k + 2" "itemExercises sh k vocab item"] by simp

lemma length_forEach_push:
  "length (forEach_push sh vocab items k []) = 5 * length items"
  by (induction items arbitrary: k)
    (simp_all add: forEach_push_Cons length_itemExercises del: forEach_push.simps(2))

lemma forEach_push_nth:
  assumes "i < length items" and "j < 5"
  shows "forEach_push sh vocab items k [] ! (5 * i + j) = itemExercises sh (k + 2 * i) vocab (items ! i) ! j"
  using assms
proof (induction items arbitrary: k i)
  case Nil
  then show ?case by simp
next
  case (Cons item rest)
  show ?case
  proof (cases i)
    case 0
    with Cons.prems show ?thesis
      by (simp add: forEach_push_Cons nth_append length_itemExercises del: forEach_push.simps(2))
  next
    case (Suc i')
    with Cons.prems have i': "i' < length rest" by simp
    have "forEach_push sh vocab (item # rest) k [] ! (5 * i + j)
        = forEach_push sh vocab rest (k + 2) [] ! (5 * i' + j)"
      using Suc
      by (simp add: forEach_push_Cons nth_append length_itemExercises del: forEach_push.simps(2))
    also have "\<dots> = itemExercises sh (k + 2 + 2 * i') vocab (rest ! i') ! j"
      using Cons.IH [OF i' Cons.prems(2)] .
    finally show ?thesis using Suc by simp
  qed
qed

lemma createExercises_nth:
  assumes "i < length vocab" and "j < 5"
  shows "createExercises sh vocab ! (5 * i + j) = itemExercises sh (2 * i) vocab (vocab ! i) ! j"
proof -
  have "5 * i + j < length (forEach_push sh vocab vocab 0 [])"
    using assms by (simp add: length_forEach_push)
  then show ?thesis
    using forEach_push_nth [OF assms, of sh vocab 0]
    by (simp add: createExercises_def nth_append)
qed

lemma length_createExercises: "length (createExercises sh vocab) = 5 * length vocab + 1"
  by (simp add: createExercises_def length_forEach_push)

lemma createExercises_last:
  "createExercises sh vocab ! (5 * length vocab) = matchAll vocab"
  by (simp add: createExercises_def nth_append length_forEach_push)

lemma types_itemExercises:
  "map type_ex (itemExercises sh k vocab item) =
     [Flashcard, GuessMeaning, GuessWord, FillBlank, Listening]"
  by (simp add: itemExercises_def Let_def)

lemma targets_itemExercises:
  "map targetWordId (itemExercises sh k vocab item) = replicate 5 (id_v item)"
  by (simp add: itemExercises_def Let_def numeral_eq_Suc)

lemma types_forEach_push:
  "map type_ex (forEach_push sh vocab items k []) =
     concat (replicate (length items) [Flashcard, GuessMeaning, GuessWord, FillBlank, Listening])"
  by (induction items arbitrary: k)
    (simp_all add: forEach_push_Cons types_itemExercises del: forEach_push.simps(2))

lemma targets_forEach_push:
  "map targetWordId (forEach_push sh vocab items k []) =
     concat (map (\<lambda>v. replicate 5 (id_v v)) items)"
  by (induction items arbitrary: k)
    (simp_all add: forEach_push_Cons targets_itemExercises del: forEach_push.simps(2))

section \<open>Example data\<close>

definition mkItem :: "string \<Rightarrow> string \<Rightarrow> string \<Rightarrow> VocabularyItem" where
  "mkItem i w d =
     \<lparr>id_v = i, word = w, pronunciation = [], definition_v = [], vietnameseDefinition = d,
      partOfSpeech = ''noun'', exampleSentence = ''A '' @ w @ ''.'',
      exampleSentenceBlank = ''A _______.'', synonyms = [], imageKeyword = w\<rparr>"

definition lesson :: "VocabularyItem list" where
  "lesson = [mkItem ''v0'' ''cat'' ''meo'', mkItem ''v1'' ''dog'' ''cho'',
             mkItem ''v2'' ''bird'' ''chim'', mkItem ''v3'' ''fish'' ''ca'',
             mkItem ''v4'' ''horse'' ''ngua'']"

definition rotating :: shuffle where
  "rotating k xs = (if even k then rotate1 xs else rev xs)"

lemma mset_rotate1: "mset (rotate1 xs) = mset xs"
  by (cases xs) simp_all

lemma shuffles_rotating: "shuffles rotating"
  by (simp add: shuffles_def rotating_def mset_rotate1)

lemma length_lesson: "length lesson = 5"
  by (simp add: lesson_def)

section \<open>Claims about the exercise generator\<close>

text \<open>
  C1. For a vocabulary set of exactly 5 items, \<open>createExercises\<close> returns exactly 26
  exercises: for each item, in input order, a flashcard, a guess-meaning, a guess-word, a
  fill-blank and a listening exercise, all five with the item's identifier as target, and
  then one matching exercise, the only one of its kind, whose pairs are the (identifier,
  Vietnamese definition) tuples of the 5 items in order and whose target is \<open>all\<close>.
\<close>

theorem createExercises_26:
  assumes "length vocab = 5"
  shows "length (createExercises sh vocab) = 26
       \<and> map type_ex (createExercises sh vocab) =
           concat (replicate 5 [Flashcard, GuessMeaning, GuessWord, FillBlank, Listening]) @ [Matching]
       \<and> map targetWordId (createExercises sh vocab) =
           concat (map (\<lambda>v. replicate 5 (id_v v)) vocab) @ [''all'']
       \<and> matchingPairs (createExercises sh vocab ! 25) =
           Some (map (\<lambda>v. \<lparr>wordId = id_v v, definition_p = vietnameseDefinition v\<rparr>) vocab)
       \<and> length (filter (\<lambda>e. type_ex e = Matching) (createExercises sh vocab)) = 1"
proof -
  let ?exs = "createExercises sh vocab"
  have len: "length ?exs = 26"
    using assms by (simp add: length_createExercises)
  have types: "map type_ex ?exs =
      concat (replicate 5 [Flashcard, GuessMeaning, GuessWord, FillBlank, Listening]) @ [Matching]"
    using assms by (simp add: createExercises_def types_forEach_push matchAll_def)
  have targets: "map targetWordId ?exs = concat (map (\<lambda>v. replicate 5 (id_v v)) vocab) @ [''all'']"
    by (simp add: createExercises_def targets_forEach_push matchAll_def)
  have pairs: "matchingPairs (?exs ! 25) =
      Some (map (\<lambda>v. \<lparr>wordId = id_v v, definition_p = vietnameseDefinition v\<rparr>) vocab)"
    using createExercises_last [of sh vocab] assms by (simp add: matchAll_def)
  have "length (filter (\<lambda>e. type_ex e = Matching) ?exs)
      = length (filter (\<lambda>t. t = Matching) (map type_ex ?exs))"
    by (simp add: filter_map comp_def)
  also have "\<dots> = 1"
    unfolding types by (simp add: numeral_eq_Suc)
  finally have one: "length (filter (\<lambda>e. type_ex e = Matching) ?exs) = 1" .
  from len types targets pairs one show ?thesis by blast
qed

theorem createExercises_26_witness:
  "length lesson = 5
   \<and> length (createExercises rotating lesson) = 26
   \<and> map type_ex (createExercises rotating lesson) =
       concat (replicate 5 [Flashcard, GuessMeaning, GuessWord, FillBlank, Listening]) @ [Matching]
   \<and> map targetWordId (createExercises rotating lesson) =
       concat (map (\<lambda>v. replicate 5 (id_v v)) lesson) @ [''all'']
   \<and> matchingPairs (createExercises rotating lesson ! 25) =
       Some (map (\<lambda>v. \<lparr>wordId = id_v v, definition_p = vietnameseDefinition v\<rparr>) lesson)
   \<and> length (filter (\<lambda>e. type_ex e = Matching) (createExercises rotating lesson)) = 1"
  using createExercises_26 [OF length_lesson, of rotating] length_lesson by blast

subsection \<open>Options and the correct index\<close>

text \<open>
  \<open>firstAt opts c x\<close>: the index \<open>c\<close> is a position of \<open>opts\<close>, the entry there is \<open>x\<close>,
  and no earlier entry is \<open>x\<close>.
\<close>

definition firstAt :: "string list \<Rightarrow> int \<Rightarrow> string \<Rightarrow> bool" where
  "firstAt opts c x =
     (0 \<le> c \<and> nat c < length opts \<and> opts ! nat c = x \<and> (\<forall>j < nat c. opts ! j \<noteq> x))"

lemma indexOf_absent: "x \<notin> set xs \<Longrightarrow> indexOf xs x = -1"
  by (induction xs) (auto simp: Let_def)

lemma indexOf_present:
  "x \<in> set xs \<Longrightarrow>
     0 \<le> indexOf xs x \<and> nat (indexOf xs x) < length xs \<and> xs ! nat (indexOf xs x) = x
     \<and> (\<forall>j < nat (indexOf xs x). xs ! j \<noteq> x)"
proof (induction xs)
  case Nil
  then show ?case by simp
next
  case (Cons y ys)
  show ?case
  proof (cases "y = x")
    case True
    then show ?thesis by simp
  next
    case False
    with Cons.prems have mem: "x \<in> set ys" by simp
    note ih = Cons.IH [OF mem]
    from ih have nonneg: "0 \<le> indexOf ys x" by simp
    have idx: "indexOf (y # ys) x = indexOf ys x + 1"
      using False nonneg by (simp add: Let_def)
    have suc: "nat (indexOf (y # ys) x) = Suc (nat (indexOf ys x))"
      using idx nonneg by simp
    have earlier: "\<forall>j < Suc (nat (indexOf ys x)). (y # ys) ! j \<noteq> x"
    proof (intro allI impI)
      fix j assume "j < Suc (nat (indexOf ys x))"
      then show "(y # ys) ! j \<noteq> x"
        using False ih by (cases j) simp_all
    qed
    show ?thesis
      unfolding suc using idx nonneg ih earlier by simp
  qed
qed

lemma firstAt_indexOf: "x \<in> set opts \<Longrightarrow> firstAt opts (indexOf opts x) x"
  using indexOf_present [of x opts] by (simp add: firstAt_def)

lemma shuffles_set: "shuffles sh \<Longrightarrow> set (sh k xs) = set xs"
  unfolding shuffles_def by (metis set_mset_mset)

lemma shuffles_count: "shuffles sh \<Longrightarrow> count_list (sh k xs) x = count_list xs x"
  unfolding shuffles_def by (metis count_mset)

lemma itemExercises_GuessMeaning:
  "itemExercises sh k vocab item ! 1 =
     (let optionsVN = sh k (vietnameseDefinition item # distractors vocab item)
      in \<lparr>id_ex = ''gm-'' @ id_v item, type_ex = GuessMeaning, targetWordId = id_v item,
          question = word item, options = Some optionsVN,
          correctOptionIndex = Some (indexOf optionsVN (vietnameseDefinition item)),
          matchingPairs = None\<rparr>)"
  by (simp add: itemExercises_def Let_def)

lemma itemExercises_GuessWord:
  "itemExercises sh k vocab item ! 2 =
     (let optionsEN = sh (k + 1) (word item # wordDistractors vocab item)
      in \<lparr>id_ex = ''gw-'' @ id_v item, type_ex = GuessWord, targetWordId = id_v item,
          question = vietnameseDefinition item, options = Some optionsEN,
          correctOptionIndex = Some (indexOf optionsEN (word item)),
          matchingPairs = None\<rparr>)"
  by (simp add: itemExercises_def Let_def)

lemma itemExercises_Listening:
  "itemExercises sh k vocab item ! 4 =
     (let optionsVN = sh k (vietnameseDefinition item # distractors vocab item)
      in \<lparr>id_ex = ''ls-'' @ id_v item, type_ex = Listening, targetWordId = id_v item,
          question = word item, options = Some optionsVN,
          correctOptionIndex = Some (indexOf optionsVN (vietnameseDefinition item)),
          matchingPairs = None\<rparr>)"
  by (simp add: itemExercises_def Let_def)

text \<open>
  What holds of an option list \<open>sh k (x # ds)\<close> and the index \<open>indexOf\<close> finds in it.
\<close>

lemma shuffled_options:
  assumes "shuffles sh"
  shows "firstAt (sh k (x # ds)) (indexOf (sh k (x # ds)) x) x"
    and "mset (sh k (x # ds)) = mset (x # ds)"
    and "1 \<le> count_list (sh k (x # ds)) x"
    and "count_list (sh k (x # ds)) x = 1 \<longleftrightarrow> x \<notin> set ds"
proof -
  have "x \<in> set (sh k (x # ds))"
    using assms by (simp add: shuffles_set)
  then show "firstAt (sh k (x # ds)) (indexOf (sh k (x # ds)) x) x"
    by (rule firstAt_indexOf)
  show "mset (sh k (x # ds)) = mset (x # ds)"
    using assms by (simp add: shuffles_def)
  have count: "count_list (sh k (x # ds)) x = Suc (count_list ds x)"
    using assms by (simp add: shuffles_count)
  show "1 \<le> count_list (sh k (x # ds)) x"
    unfolding count by simp
  show "count_list (sh k (x # ds)) x = 1 \<longleftrightarrow> x \<notin> set ds"
    unfolding count by (simp add: count_list_0_iff)
qed

definition lateSynonyms :: "VocabularyItem list" where
  "lateSynonyms = [mkItem ''v0'' ''cat'' ''meo'', mkItem ''v1'' ''dog'' ''cho'',
                   mkItem ''v2'' ''bird'' ''chim'', mkItem ''v3'' ''big'' ''to'',
                   mkItem ''v4'' ''large'' ''to'']"

definition synonymLesson :: "VocabularyItem list" where
  "synonymLesson = [mkItem ''v0'' ''big'' ''to'', mkItem ''v1'' ''large'' ''to'',
                    mkItem ''v2'' ''small'' ''nho'', mkItem ''v3'' ''far'' ''xa'',
                    mkItem ''v4'' ''near'' ''gan'']"

lemma createExercises_position:
  assumes "n < 5 * length vocab"
  shows "createExercises sh vocab ! n =
           itemExercises sh (2 * (n div 5)) vocab (vocab ! (n div 5)) ! (n mod 5)"
proof -
  have i: "n div 5 < length vocab" using assms by simp
  have j: "n mod 5 < 5" by simp
  have "createExercises sh vocab ! (5 * (n div 5) + n mod 5) =
          itemExercises sh (2 * (n div 5)) vocab (vocab ! (n div 5)) ! (n mod 5)"
    by (rule createExercises_nth [OF i j])
  then show ?thesis by simp
qed

lemma itemExercises_no_options:
  "options (itemExercises sh k vocab item ! 0) = None"
  "options (itemExercises sh k vocab item ! 3) = None"
  by (simp_all add: itemExercises_def Let_def)

lemma below_five: "(j::nat) < 5 \<Longrightarrow> j = 0 \<or> j = 1 \<or> j = 2 \<or> j = 3 \<or> j = 4"
  by arith

text \<open>
  C2 (as amended). Let the random sort rearrange its array. Every exercise of the
  generated sequence that bears options is the guess-meaning, guess-word or listening
  exercise of the item at position \<open>n div 5\<close>; its options are a rearrangement of the
  correct answer (that item's Vietnamese definition, its headword for guess-word) and the
  distractors shown with the item, so they contain the correct answer at least once, and
  exactly once if and only if none of the distractors shown is equal to it;
  \<open>correctOptionIndex\<close> is the position of the first occurrence of the correct answer in
  the shuffled options.
\<close>

theorem options_hold_correct_answer:
  assumes "shuffles sh"
    and "n < length (createExercises sh vocab)"
    and "options (createExercises sh vocab ! n) = Some opts"
  shows "n div 5 < length vocab
       \<and> targetWordId (createExercises sh vocab ! n) = id_v (vocab ! (n div 5))
       \<and> (type_ex (createExercises sh vocab ! n) = GuessMeaning
            \<or> type_ex (createExercises sh vocab ! n) = Listening
            \<or> type_ex (createExercises sh vocab ! n) = GuessWord)
       \<and> (type_ex (createExercises sh vocab ! n) \<noteq> GuessWord \<longrightarrow>
            (\<exists>c. correctOptionIndex (createExercises sh vocab ! n) = Some c
                 \<and> firstAt opts c (vietnameseDefinition (vocab ! (n div 5))))
            \<and> mset opts = mset (vietnameseDefinition (vocab ! (n div 5))
                                  # distractors vocab (vocab ! (n div 5)))
            \<and> 1 \<le> count_list opts (vietnameseDefinition (vocab ! (n div 5)))
            \<and> (count_list opts (vietnameseDefinition (vocab ! (n div 5))) = 1
                 \<longleftrightarrow> vietnameseDefinition (vocab ! (n div 5))
                        \<notin> set (distractors vocab (vocab ! (n div 5)))))
       \<and> (type_ex (createExercises sh vocab ! n) = GuessWord \<longrightarrow>
            (\<exists>c. correctOptionIndex (createExercises sh vocab ! n) = Some c
                 \<and> firstAt opts c (word (vocab ! (n div 5))))
            \<and> mset opts = mset (word (vocab ! (n div 5))
                                  # wordDistractors vocab (vocab ! (n div 5)))
            \<and> 1 \<le> count_list opts (word (vocab ! (n div 5)))
            \<and> (count_list opts (word (vocab ! (n div 5))) = 1
                 \<longleftrightarrow> word (vocab ! (n div 5))
                        \<notin> set (wordDistractors vocab (vocab ! (n div 5)))))"
proof -
  let ?e = "createExercises sh vocab ! n"
  let ?i = "n div 5"
  let ?item = "vocab ! ?i"
  have "n \<noteq> 5 * length vocab"
  proof
    assume "n = 5 * length vocab"
    then have "?e = matchAll vocab" by (simp add: createExercises_last)
    with assms(3) show False by (simp add: matchAll_def)
  qed
  with assms(2) have n: "n < 5 * length vocab"
    by (simp add: length_createExercises)
  then have i: "?i < length vocab" by simp
  have e: "?e = itemExercises sh (2 * ?i) vocab ?item ! (n mod 5)"
    by (rule createExercises_position [OF n])
  have target: "targetWordId ?e = id_v ?item"
  proof -
    have "n mod 5 < length (itemExercises sh (2 * ?i) vocab ?item)"
      by (simp add: length_itemExercises)
    then have "targetWordId ?e = map targetWordId (itemExercises sh (2 * ?i) vocab ?item) ! (n mod 5)"
      unfolding e by (rule nth_map [symmetric])
    then show ?thesis by (simp add: targets_itemExercises)
  qed
  have "n mod 5 = 0 \<or> n mod 5 = 1 \<or> n mod 5 = 2 \<or> n mod 5 = 3 \<or> n mod 5 = 4"
    by (rule below_five) simp
  then consider "n mod 5 = 0" | "n mod 5 = 1" | "n mod 5 = 2" | "n mod 5 = 3" | "n mod 5 = 4"
    by (elim disjE) simp_all
  then show ?thesis
  proof cases
    case 1
    with e assms(3) show ?thesis by (simp add: itemExercises_no_options)
  next
    case 2
    let ?x = "vietnameseDefinition ?item"
    let ?ds = "distractors vocab ?item"
    from 2 e have e': "?e = itemExercises sh (2 * ?i) vocab ?item ! 1" by simp
    have opts: "opts = sh (2 * ?i) (?x # ?ds)"
      using assms(3) unfolding e' itemExercises_GuessMeaning by (simp add: Let_def)
    have ty: "type_ex ?e = GuessMeaning"
      unfolding e' itemExercises_GuessMeaning by (simp add: Let_def)
    have ci: "correctOptionIndex ?e = Some (indexOf opts ?x)"
      unfolding e' itemExercises_GuessMeaning opts by (simp add: Let_def)
    have "firstAt opts (indexOf opts ?x) ?x"
      unfolding opts by (rule shuffled_options(1) [OF assms(1)])
    moreover have "mset opts = mset (?x # ?ds)"
      unfolding opts by (rule shuffled_options(2) [OF assms(1)])
    moreover have "1 \<le> count_list opts ?x"
      unfolding opts by (rule shuffled_options(3) [OF assms(1)])
    moreover have "count_list opts ?x = 1 \<longleftrightarrow> ?x \<notin> set ?ds"
      unfolding opts by (rule shuffled_options(4) [OF assms(1)])
    ultimately show ?thesis using i target ty ci by simp
  next
    case 3
    let ?x = "word ?item"
    let ?ds = "wordDistractors vocab ?item"
    from 3 e have e': "?e = itemExercises sh (2 * ?i) vocab ?item ! 2" by simp
    have opts: "opts = sh (2 * ?i + 1) (?x # ?ds)"
      using assms(3) unfolding e' itemExercises_GuessWord by (simp add: Let_def)
    have ty: "type_ex ?e = GuessWord"
      unfolding e' itemExercises_GuessWord by (simp add: Let_def)
    have ci: "correctOptionIndex ?e = Some (indexOf opts ?x)"
      unfolding e' itemExercises_GuessWord opts by (simp add: Let_def)
    have "firstAt opts (indexOf opts ?x) ?x"
      unfolding opts by (rule shuffled_options(1) [OF assms(1)])
    moreover have "mset opts = mset (?x # ?ds)"
      unfolding opts by (rule shuffled_options(2) [OF assms(1)])
    moreover have "1 \<le> count_list opts ?x"
      unfolding opts by (rule shuffled_options(3) [OF assms(1)])
    moreover have "count_list opts ?x = 1 \<longleftrightarrow> ?x \<notin> set ?ds"
      unfolding opts by (rule shuffled_options(4) [OF assms(1)])
    ultimately show ?thesis using i target ty ci by simp
  next
    case 4
    with e assms(3) show ?thesis by (simp add: itemExercises_no_options)
  next
    case 5
    let ?x = "vietnameseDefinition ?item"
    let ?ds = "distractors vocab ?item"
    from 5 e have e': "?e = itemExercises sh (2 * ?i) vocab ?item ! 4" by simp
    have opts: "opts = sh (2 * ?i) (?x # ?ds)"
      using assms(3) unfolding e' itemExercises_Listening by (simp add: Let_def)
    have ty: "type_ex ?e = Listening"
      unfolding e' itemExercises_Listening by (simp add: Let_def)
    have ci: "correctOptionIndex ?e = Some (indexOf opts ?x)"
      unfolding e' itemExercises_Listening opts by (simp add: Let_def)
    have "firstAt opts (indexOf opts ?x) ?x"
      unfolding opts by (rule shuffled_options(1) [OF assms(1)])
    moreover have "mset opts = mset (?x # ?ds)"
      unfolding opts by (rule shuffled_options(2) [OF assms(1)])
    moreover have "1 \<le> count_list opts ?x"
      unfolding opts by (rule shuffled_options(3) [OF assms(1)])
    moreover have "count_list opts ?x = 1 \<longleftrightarrow> ?x \<notin> set ?ds"
      unfolding opts by (rule shuffled_options(4) [OF assms(1)])
    ultimately show ?thesis using i target ty ci by simp
  qed
qed

lemma lesson_GuessMeaning:
  "createExercises rotating lesson ! 1 =
     \<lparr>id_ex = ''gm-v0'', type_ex = GuessMeaning, targetWordId = ''v0'', question = ''cat'',
      options = Some [''cho'', ''chim'', ''ca'', ''meo''], correctOptionIndex = Some 3,
      matchingPairs = None\<rparr>"
  by code_simp

lemma lesson_GuessWord:
  "createExercises rotating lesson ! 2 =
     \<lparr>id_ex = ''gw-v0'', type_ex = GuessWord, targetWordId = ''v0'', question = ''meo'',
      options = Some [''fish'', ''bird'', ''dog'', ''cat''], correctOptionIndex = Some 3,
      matchingPairs = None\<rparr>"
  by code_simp

lemma lateSynonyms_GuessMeaning:
  "createExercises rotating lateSynonyms ! 16 =
     \<lparr>id_ex = ''gm-v3'', type_ex = GuessMeaning, targetWordId = ''v3'', question = ''big'',
      options = Some [''meo'', ''cho'', ''chim'', ''to''], correctOptionIndex = Some 3,
      matchingPairs = None\<rparr>"
  by code_simp

theorem options_hold_correct_answer_witness:
  "shuffles rotating
   \<and> 1 < length (createExercises rotating lesson)
   \<and> options (createExercises rotating lesson ! 1) = Some [''cho'', ''chim'', ''ca'', ''meo'']
   \<and> type_ex (createExercises rotating lesson ! 1) = GuessMeaning
   \<and> vietnameseDefinition (lesson ! 0) = ''meo''
   \<and> distractors lesson (lesson ! 0) = [''cho'', ''chim'', ''ca'']
   \<and> correctOptionIndex (createExercises rotating lesson ! 1) = Some 3
   \<and> firstAt [''cho'', ''chim'', ''ca'', ''meo''] 3 ''meo''
   \<and> count_list [''cho'', ''chim'', ''ca'', ''meo''] ''meo'' = 1
   \<and> 2 < length (createExercises rotating lesson)
   \<and> options (createExercises rotating lesson ! 2) = Some [''fish'', ''bird'', ''dog'', ''cat'']
   \<and> type_ex (createExercises rotating lesson ! 2) = GuessWord
   \<and> word (lesson ! 0) = ''cat''
   \<and> wordDistractors lesson (lesson ! 0) = [''dog'', ''bird'', ''fish'']
   \<and> correctOptionIndex (createExercises rotating lesson ! 2) = Some 3
   \<and> firstAt [''fish'', ''bird'', ''dog'', ''cat''] 3 ''cat''
   \<and> count_list [''fish'', ''bird'', ''dog'', ''cat''] ''cat'' = 1
   \<and> 16 < length (createExercises rotating lateSynonyms)
   \<and> options (createExercises rotating lateSynonyms ! 16) = Some [''meo'', ''cho'', ''chim'', ''to'']
   \<and> type_ex (createExercises rotating lateSynonyms ! 16) = GuessMeaning
   \<and> vietnameseDefinition (lateSynonyms ! 3) = ''to''
   \<and> vietnameseDefinition (lateSynonyms ! 4) = ''to''
   \<and> distractors lateSynonyms (lateSynonyms ! 3) = [''meo'', ''cho'', ''chim'']
   \<and> count_list [''meo'', ''cho'', ''chim'', ''to''] ''to'' = 1"
proof -
  have len1: "1 < length (createExercises rotating lesson)"
    and len2: "2 < length (createExercises rotating lesson)"
    by (simp_all add: length_createExercises length_lesson)
  have len16: "16 < length (createExercises rotating lateSynonyms)"
    by (simp add: length_createExercises lateSynonyms_def)
  have o1: "options (createExercises rotating lesson ! 1) = Some [''cho'', ''chim'', ''ca'', ''meo'']"
    and t1: "type_ex (createExercises rotating lesson ! 1) = GuessMeaning"
    and c1: "correctOptionIndex (createExercises rotating lesson ! 1) = Some 3"
    using lesson_GuessMeaning by simp_all
  have o2: "options (createExercises rotating lesson ! 2) = Some [''fish'', ''bird'', ''dog'', ''cat'']"
    and t2: "type_ex (createExercises rotating lesson ! 2) = GuessWord"
    and c2: "correctOptionIndex (createExercises rotating lesson ! 2) = Some 3"
    using lesson_GuessWord by simp_all
  have o16: "options (createExercises rotating lateSynonyms ! 16) = Some [''meo'', ''cho'', ''chim'', ''to'']"
    and t16: "type_ex (createExercises rotating lateSynonyms ! 16) = GuessMeaning"
    using lateSynonyms_GuessMeaning by simp_all
  have d: "vietnameseDefinition (lesson ! 0) = ''meo''" and w: "word (lesson ! 0) = ''cat''"
    by (simp_all add: lesson_def mkItem_def)
  have ds: "distractors lesson (lesson ! 0) = [''cho'', ''chim'', ''ca'']"
    and ws: "wordDistractors lesson (lesson ! 0) = [''dog'', ''bird'', ''fish'']"
    by (simp_all add: distractors_def wordDistractors_def lesson_def mkItem_def)
  have d3: "vietnameseDefinition (lateSynonyms ! 3) = ''to''"
    and d4: "vietnameseDefinition (lateSynonyms ! 4) = ''to''"
    by (simp_all add: lateSynonyms_def mkItem_def)
  have ds3: "distractors lateSynonyms (lateSynonyms ! 3) = [''meo'', ''cho'', ''chim'']"
    by (simp add: distractors_def lateSynonyms_def mkItem_def)
  have z: "(1::nat) div 5 = 0" "(2::nat) div 5 = 0" "(16::nat) div 5 = 3" by simp_all
  note gm = options_hold_correct_answer [OF shuffles_rotating len1 o1, unfolded z d t1 c1 ds]
  note gw = options_hold_correct_answer [OF shuffles_rotating len2 o2, unfolded z w t2 c2 ws]
  note late = options_hold_correct_answer [OF shuffles_rotating len16 o16, unfolded z d3 t16 ds3]
  from gm have "firstAt [''cho'', ''chim'', ''ca'', ''meo''] 3 ''meo''"
    and "count_list [''cho'', ''chim'', ''ca'', ''meo''] ''meo'' = 1"
    by simp_all
  moreover from gw have "firstAt [''fish'', ''bird'', ''dog'', ''cat''] 3 ''cat''"
    and "count_list [''fish'', ''bird'', ''dog'', ''cat''] ''cat'' = 1"
    by simp_all
  moreover from late have "count_list [''meo'', ''cho'', ''chim'', ''to''] ''to'' = 1"
    by simp
  ultimately show ?thesis
    using shuffles_rotating len1 len2 len16 o1 t1 c1 o2 t2 c2 o16 t16 d w ds ws d3 d4 ds3
    by simp
qed

text \<open>
  C2 as written fails: two items with different identifiers and the same Vietnamese
  definition (synonyms) put the correct answer into the guess-meaning options twice.
\<close>

theorem options_duplicate_counterexample:
  "shuffles rotating
   \<and> length synonymLesson = 5
   \<and> distinct (map id_v synonymLesson)
   \<and> type_ex (createExercises rotating synonymLesson ! 1) = GuessMeaning
   \<and> targetWordId (createExercises rotating synonymLesson ! 1) = id_v (synonymLesson ! 0)
   \<and> options (createExercises rotating synonymLesson ! 1) = Some [''to'', ''nho'', ''xa'', ''to'']
   \<and> count_list [''to'', ''nho'', ''xa'', ''to''] (vietnameseDefinition (synonymLesson ! 0)) = 2"
proof -
  have "createExercises rotating synonymLesson ! 1 =
     \<lparr>id_ex = ''gm-v0'', type_ex = GuessMeaning, targetWordId = ''v0'', question = ''big'',
      options = Some [''to'', ''nho'', ''xa'', ''to''], correctOptionIndex = Some 0,
      matchingPairs = None\<rparr>"
    by code_simp
  moreover have "length synonymLesson = 5" "distinct (map id_v synonymLesson)"
    "id_v (synonymLesson ! 0) = ''v0''" "vietnameseDefinition (synonymLesson ! 0) = ''to''"
    by (simp_all add: synonymLesson_def mkItem_def)
  ultimately show ?thesis
    using shuffles_rotating by simp
qed

text \<open>
  C10. For the item at every position \<open>i\<close> of the vocabulary set, the listening exercise
  generated for it (position \<open>5 i + 4\<close>) has the same options, entry for entry in the
  same shuffled order, and the same \<open>correctOptionIndex\<close> as the guess-meaning exercise
  generated for it (position \<open>5 i + 1\<close>).
\<close>

theorem listening_shares_options:
  assumes "i < length vocab"
  shows "type_ex (createExercises sh vocab ! (5 * i + 1)) = GuessMeaning
       \<and> type_ex (createExercises sh vocab ! (5 * i + 4)) = Listening
       \<and> targetWordId (createExercises sh vocab ! (5 * i + 1)) = id_v (vocab ! i)
       \<and> targetWordId (createExercises sh vocab ! (5 * i + 4)) = id_v (vocab ! i)
       \<and> options (createExercises sh vocab ! (5 * i + 1)) \<noteq> None
       \<and> options (createExercises sh vocab ! (5 * i + 4)) =
           options (createExercises sh vocab ! (5 * i + 1))
       \<and> correctOptionIndex (createExercises sh vocab ! (5 * i + 4)) =
           correctOptionIndex (createExercises sh vocab ! (5 * i + 1))"
proof -
  have gm: "createExercises sh vocab ! (5 * i + 1) = itemExercises sh (2 * i) vocab (vocab ! i) ! 1"
    by (rule createExercises_nth [OF assms]) simp
  have ls: "createExercises sh vocab ! (5 * i + 4) = itemExercises sh (2 * i) vocab (vocab ! i) ! 4"
    by (rule createExercises_nth [OF assms]) simp
  show ?thesis
    unfolding gm ls itemExercises_GuessMeaning itemExercises_Listening
    by (simp add: Let_def)
qed

theorem listening_shares_options_witness:
  "(0::nat) < length lesson
   \<and> options (createExercises rotating lesson ! 4) = Some [''cho'', ''chim'', ''ca'', ''meo'']
   \<and> options (createExercises rotating lesson ! 4) = options (createExercises rotating lesson ! 1)
   \<and> correctOptionIndex (createExercises rotating lesson ! 4) =
       correctOptionIndex (createExercises rotating lesson ! 1)"
proof -
  have pos: "(0::nat) < length lesson" by (simp add: length_lesson)
  have "options (createExercises rotating lesson ! 1) = Some [''cho'', ''chim'', ''ca'', ''meo'']"
    using lesson_GuessMeaning by simp
  with listening_shares_options [OF pos, of rotating] pos show ?thesis by simp
qed

section \<open>Answer evaluation and the learning session (App)\<close>

text \<open>
  \<open>String.prototype.toLowerCase\<close> and \<open>String.prototype.trim\<close> are built into the
  language, with the case tables and white space of Unicode behind them. They are
  parameters, \<open>toLowerCase\<close> and \<open>trim\<close>, of everything that calls them, so that what is
  proved holds of the operations the language has.

  Only on strings of ASCII characters is what they do written out: \<open>asciiLower\<close> lowers
  the letters \<open>A\<close> to \<open>Z\<close>, and \<open>asciiTrim\<close> strips tab, line feed, vertical tab, form
  feed, carriage return and space from both ends. \<open>onAscii toLowerCase trim\<close> says that
  the two operations do this on every string of ASCII characters, as those of the language
  do; nothing is said of any other string.
\<close>

definition isAscii :: "string \<Rightarrow> bool" where
  "isAscii s = list_all (\<lambda>c. (of_char c :: nat) < 128) s"

definition lowerChar :: "char \<Rightarrow> char" where
  "lowerChar c =
     (if 65 \<le> (of_char c :: nat) \<and> (of_char c :: nat) \<le> 90
      then char_of ((of_char c :: nat) + 32) else c)"

definition asciiLower :: "string \<Rightarrow> string" where
  "asciiLower s = map lowerChar s"

definition isWhiteSpace :: "char \<Rightarrow> bool" where
  "isWhiteSpace c = ((9 \<le> (of_char c :: nat) \<and> (of_char c :: nat) \<le> 13) \<or> (of_char c :: nat) = 32)"

definition asciiTrim :: "string \<Rightarrow> string" where
  "asciiTrim s = rev (dropWhile isWhiteSpace (rev (dropWhile isWhiteSpace s)))"

definition onAscii :: "(string \<Rightarrow> string) \<Rightarrow> (string \<Rightarrow> string) \<Rightarrow> bool" where
  "onAscii toLowerCase trim =
     (\<forall>s. isAscii s \<longrightarrow> toLowerCase s = asciiLower s \<and> trim s = asciiTrim s)"

text \<open>\<open>xs[i]\<close>: \<open>None\<close> is \<open>undefined\<close>, what an index outside the array reads.\<close>

definition elemAt :: "'a list \<Rightarrow> int \<Rightarrow> 'a option" where
  "elemAt xs i = (if 0 \<le> i \<and> i < int (length xs) then Some (xs ! nat i) else None)"

text \<open>\<open>vocabList.find(v => v.id === currentEx.targetWordId)\<close>, \<open>None\<close> for \<open>undefined\<close>.\<close>

definition targetVocab :: "VocabularyItem list \<Rightarrow> Exercise \<Rightarrow> VocabularyItem option" where
  "targetVocab vocabList currentEx = find (\<lambda>v. id_v v = targetWordId currentEx) vocabList"

text \<open>
  The correctness decision of \<open>handleAnswer\<close> (the chain of tests that sets
  \<open>isCorrect\<close>), for the exercise on screen, the vocabulary list and the answer. The
  flashcard case has returned before the chain is reached; no test of the chain accepts a
  flashcard.
\<close>

definition evaluateAnswer :: "(string \<Rightarrow> string) \<Rightarrow> (string \<Rightarrow> string)
    \<Rightarrow> VocabularyItem list \<Rightarrow> Exercise \<Rightarrow> string \<Rightarrow> bool" where
  "evaluateAnswer toLowerCase trim vocabList currentEx answer =
     (if type_ex currentEx = Matching then answer = ''COMPLETE''
      else if type_ex currentEx = FillBlank then
        (case targetVocab vocabList currentEx of
           None \<Rightarrow> False
         | Some t \<Rightarrow> trim (toLowerCase answer) = trim (toLowerCase (word t)))
      else if type_ex currentEx = Listening then
        (case targetVocab vocabList currentEx of
           None \<Rightarrow> False | Some t \<Rightarrow> answer = vietnameseDefinition t)
      else if type_ex currentEx = GuessMeaning then
        (case targetVocab vocabList currentEx of
           None \<Rightarrow> False | Some t \<Rightarrow> answer = vietnameseDefinition t)
      else if type_ex currentEx = GuessWord then
        (case targetVocab vocabList currentEx of
           None \<Rightarrow> False | Some t \<Rightarrow> answer = word t)
      else False)"

datatype AppMode = LEARN | GAME | DASHBOARD

datatype error = TypeError

record Session =
  userState :: UserState
  appMode :: AppMode
  isLoading :: bool
  vocabList :: "VocabularyItem list"
  exercises :: "Exercise list"
  currentExerciseIndex :: int
  feedback :: "FeedbackData option"
  isProcessingAI :: bool

text \<open>
  The content provider is outside the program: \<open>generateHint\<close> is a parameter, \<open>None\<close>
  when the request fails.
\<close>

type_synonym hintProvider = "VocabularyItem \<Rightarrow> string \<Rightarrow> ExerciseType \<Rightarrow> string option"

definition msgCorrect :: string where
  "msgCorrect = ''Ch'' @ [CHR 0xC3, CHR 0xAD] @ ''nh x'' @ [CHR 0xC3, CHR 0xA1] @ ''c!''"

definition msgWrong :: string where
  "msgWrong = ''Ch'' @ [CHR 0xC6, CHR 0xB0] @ ''a '' @ [CHR 0xC4, CHR 0x91, CHR 0xC3, CHR 0xBA] @ ''ng.''"

definition msgWellDone :: string where
  "msgWellDone = ''Gi'' @ [CHR 0xE1, CHR 0xBB, CHR 0x8F] @ ''i l'' @ [CHR 0xE1, CHR 0xBA, CHR 0xAF] @ ''m!''"

definition msgFallbackHint :: string where
  "msgFallbackHint = ''H'' @ [CHR 0xC3, CHR 0xA3] @ ''y ki'' @ [CHR 0xE1, CHR 0xBB, CHR 0x83]
     @ ''m tra l'' @ [CHR 0xE1, CHR 0xBA, CHR 0xA1] @ ''i '' @ [CHR 0xC4, CHR 0x91, CHR 0xE1, CHR 0xBB, CHR 0x8B]
     @ ''nh ngh'' @ [CHR 0xC4, CHR 0xA9] @ ''a.''"

definition nextExercise :: "Session \<Rightarrow> Session" where
  "nextExercise s =
     (if currentExerciseIndex s < int (length (exercises s)) - 1
      then s\<lparr>feedback := None, currentExerciseIndex := currentExerciseIndex s + 1\<rparr>
      else s\<lparr>feedback := None, currentExerciseIndex := -1\<rparr>)"

definition retryExercise :: "Session \<Rightarrow> Session" where
  "retryExercise s = s\<lparr>feedback := None\<rparr>"

text \<open>
  \<open>handleAnswer\<close>, from the call to the state it leaves when its last update is done.
  Reading a field of \<open>undefined\<close>, when no exercise is at the current index, throws.
\<close>

definition handleAnswer :: "(string \<Rightarrow> string) \<Rightarrow> (string \<Rightarrow> string)
    \<Rightarrow> hintProvider \<Rightarrow> Session \<Rightarrow> string \<Rightarrow> error + Session" where
  "handleAnswer toLowerCase trim generateHint s answer =
     (case elemAt (exercises s) (currentExerciseIndex s) of
        None \<Rightarrow> Inl TypeError
      | Some currentEx \<Rightarrow>
          if type_ex currentEx = Flashcard then Inr (nextExercise s)
          else if evaluateAnswer toLowerCase trim (vocabList s) currentEx answer then
            Inr (s\<lparr>userState := (userState s)\<lparr>xp := xp (userState s) + 10\<rparr>,
                   feedback := Some \<lparr>isCorrect = True, message = msgCorrect,
                     hint = Some (case targetVocab (vocabList s) currentEx of
                                    Some t \<Rightarrow> [CHR 0x22] @ word t @ [CHR 0x22] @ '': ''
                                      @ vietnameseDefinition t @ [CHR 0x0A] @ ''Example: ''
                                      @ exampleSentence t
                                  | None \<Rightarrow> msgWellDone)\<rparr>\<rparr>)
          else
            (let aiHint = (case targetVocab (vocabList s) currentEx of
                             None \<Rightarrow> []
                           | Some t \<Rightarrow>
                               (case generateHint t answer (type_ex currentEx) of
                                  Some h \<Rightarrow> h | None \<Rightarrow> msgFallbackHint))
             in Inr (s\<lparr>isProcessingAI := False,
                       feedback := Some \<lparr>isCorrect = False, message = msgWrong,
                                         hint = Some aiHint\<rparr>\<rparr>)))"

text \<open>
  \<open>startSession\<close>, from the call to the state after its \<open>finally\<close>; the vocabulary set
  is what \<open>generateVocabularySet\<close> returned, \<open>None\<close> when the request failed.
\<close>

definition startSession :: "shuffle \<Rightarrow> VocabularyItem list option \<Rightarrow> Session \<Rightarrow> Session" where
  "startSession sh loaded s =
     (case loaded of
        Some vocab \<Rightarrow>
          s\<lparr>appMode := LEARN, vocabList := vocab, exercises := createExercises sh vocab,
            currentExerciseIndex := 0, isLoading := False\<rparr>
      | None \<Rightarrow> s\<lparr>appMode := DASHBOARD, isLoading := False\<rparr>)"

text \<open>The figure of the summary screen: \<open>exercises.length * 10\<close>.\<close>

definition summaryXP :: "Session \<Rightarrow> int" where
  "summaryXP s = int (length (exercises s)) * 10"

text \<open>
  What the learner does in a session: submit an answer (\<open>onAnswer\<close>), go on (the
  flashcard's \<open>onNext\<close> and the button of a positive feedback), or try again (the button
  of a negative feedback).
\<close>

datatype event = Answer string | Next | Retry

fun step :: "(string \<Rightarrow> string) \<Rightarrow> (string \<Rightarrow> string)
    \<Rightarrow> hintProvider \<Rightarrow> Session \<Rightarrow> event \<Rightarrow> error + Session" where
  "step toLowerCase trim hp s (Answer a) = handleAnswer toLowerCase trim hp s a"
| "step toLowerCase trim hp s Next = Inr (nextExercise s)"
| "step toLowerCase trim hp s Retry = Inr (retryExercise s)"

fun run :: "(string \<Rightarrow> string) \<Rightarrow> (string \<Rightarrow> string)
    \<Rightarrow> hintProvider \<Rightarrow> Session \<Rightarrow> event list \<Rightarrow> error + Session" where
  "run toLowerCase trim hp s [] = Inr s"
| "run toLowerCase trim hp s (ev # evs) =
     (case step toLowerCase trim hp s ev of
        Inl e \<Rightarrow> Inl e
      | Inr s' \<Rightarrow> run toLowerCase trim hp s' evs)"

text \<open>
  The events of a session in which the learner goes through the exercises \<open>exs\<close> from
  position \<open>k\<close> on, turning each flashcard over and giving the answer \<open>ans j\<close> to the
  exercise at position \<open>j\<close>, once, and going on.
\<close>

definition firstAttempts :: "Exercise list \<Rightarrow> (nat \<Rightarrow> string) \<Rightarrow> nat \<Rightarrow> event list" where
  "firstAttempts exs ans k =
     concat (map (\<lambda>j. if type_ex (exs ! j) = Flashcard then [Next] else [Answer (ans j), Next])
                 [k ..< length exs])"

section \<open>Claims about answer evaluation\<close>

lemma cat_ascii: "isAscii '' Cat ''" "isAscii ''cat''"
  by code_simp+

lemma cat_normalised: "asciiTrim (asciiLower '' Cat '') = asciiTrim (asciiLower ''cat'')"
  by code_simp

lemma onAscii_ascii: "onAscii asciiLower asciiTrim"
  by (simp add: onAscii_def)

lemma isAscii_asciiLower: "isAscii s \<Longrightarrow> isAscii (asciiLower s)"
  by (induction s) (auto simp: isAscii_def asciiLower_def lowerChar_def)

lemma onAscii_normalise:
  assumes "onAscii toLowerCase trim" and "isAscii s"
  shows "trim (toLowerCase s) = asciiTrim (asciiLower s)"
proof -
  have "toLowerCase s = asciiLower s"
    using assms by (simp add: onAscii_def)
  moreover have "trim (asciiLower s) = asciiTrim (asciiLower s)"
    using assms(1) isAscii_asciiLower [OF assms(2)] by (simp add: onAscii_def)
  ultimately show ?thesis by simp
qed

text \<open>
  C4. For a fill-blank exercise whose target item is found in the vocabulary list, an
  answer is correct exactly when, lower-cased and trimmed by the operations of the
  language, it equals the target's headword lower-cased and trimmed. With operations that
  do on ASCII strings what those of the language do, an ASCII answer to an ASCII headword
  is correct exactly when the two are equal once \<open>A\<close> to \<open>Z\<close> are lowered and the ASCII
  white space around them is stripped; the answer \<open>" Cat "\<close> is correct for the headword
  \<open>cat\<close>.
\<close>

theorem fill_blank_evaluation:
  assumes "type_ex currentEx = FillBlank"
    and "targetVocab vocab currentEx = Some t"
  shows "(evaluateAnswer toLowerCase trim vocab currentEx answer
            \<longleftrightarrow> trim (toLowerCase answer) = trim (toLowerCase (word t)))
       \<and> (onAscii toLowerCase trim \<and> isAscii answer \<and> isAscii (word t) \<longrightarrow>
            (evaluateAnswer toLowerCase trim vocab currentEx answer
               \<longleftrightarrow> asciiTrim (asciiLower answer) = asciiTrim (asciiLower (word t))))
       \<and> (onAscii toLowerCase trim \<and> word t = ''cat'' \<longrightarrow>
            evaluateAnswer toLowerCase trim vocab currentEx '' Cat '')"
proof -
  have iff: "evaluateAnswer toLowerCase trim vocab currentEx a
      \<longleftrightarrow> trim (toLowerCase a) = trim (toLowerCase (word t))" for a
    using assms by (simp add: evaluateAnswer_def)
  have ascii: "evaluateAnswer toLowerCase trim vocab currentEx a
      \<longleftrightarrow> asciiTrim (asciiLower a) = asciiTrim (asciiLower (word t))"
    if "onAscii toLowerCase trim" and "isAscii a" and "isAscii (word t)" for a
    unfolding iff onAscii_normalise [OF that(1,2)] onAscii_normalise [OF that(1,3)] ..
  have Cat: "evaluateAnswer toLowerCase trim vocab currentEx '' Cat ''"
    if ops: "onAscii toLowerCase trim" and w: "word t = ''cat''"
  proof -
    have "isAscii (word t)" unfolding w by (rule cat_ascii(2))
    from ascii [OF ops cat_ascii(1) this] show ?thesis
      unfolding w using cat_normalised by simp
  qed
  from iff ascii Cat show ?thesis by blast
qed

lemma lesson_fill_blank:
  "createExercises rotating lesson ! 3 =
     \<lparr>id_ex = ''fb-v0'', type_ex = FillBlank, targetWordId = ''v0'', question = ''A _______.'',
      options = None, correctOptionIndex = None, matchingPairs = None\<rparr>"
  by code_simp

lemma lesson_find_v0: "find (\<lambda>v. id_v v = ''v0'') lesson = Some (mkItem ''v0'' ''cat'' ''meo'')"
  by (simp add: lesson_def mkItem_def)

theorem fill_blank_evaluation_witness:
  "type_ex (createExercises rotating lesson ! 3) = FillBlank
   \<and> targetVocab lesson (createExercises rotating lesson ! 3)
       = Some (mkItem ''v0'' ''cat'' ''meo'')
   \<and> onAscii asciiLower asciiTrim
   \<and> word (mkItem ''v0'' ''cat'' ''meo'') = ''cat''
   \<and> isAscii ''CAT'' \<and> isAscii ''c at'' \<and> isAscii (word (mkItem ''v0'' ''cat'' ''meo''))
   \<and> evaluateAnswer asciiLower asciiTrim lesson (createExercises rotating lesson ! 3) '' Cat ''
   \<and> evaluateAnswer asciiLower asciiTrim lesson (createExercises rotating lesson ! 3) ''CAT''
   \<and> \<not> evaluateAnswer asciiLower asciiTrim lesson (createExercises rotating lesson ! 3) ''c at''"
proof -
  have ty: "type_ex (createExercises rotating lesson ! 3) = FillBlank"
    using lesson_fill_blank by simp
  have tv: "targetVocab lesson (createExercises rotating lesson ! 3)
      = Some (mkItem ''v0'' ''cat'' ''meo'')"
    using lesson_fill_blank lesson_find_v0 by (simp add: targetVocab_def)
  have w: "word (mkItem ''v0'' ''cat'' ''meo'') = ''cat''"
    by (simp add: mkItem_def)
  have a: "asciiTrim (asciiLower ''CAT'') = asciiTrim (asciiLower ''cat'')"
    and b: "asciiTrim (asciiLower ''c at'') \<noteq> asciiTrim (asciiLower ''cat'')"
    by code_simp+
  note ev = fill_blank_evaluation [OF ty tv, where toLowerCase = asciiLower and trim = asciiTrim]
  have asc: "isAscii ''CAT''" "isAscii ''c at''" "isAscii (word (mkItem ''v0'' ''cat'' ''meo''))"
    unfolding w by code_simp+
  from ev [of "'' Cat ''"] onAscii_ascii w
  have "evaluateAnswer asciiLower asciiTrim lesson (createExercises rotating lesson ! 3) '' Cat ''"
    by blast
  moreover from ev [of "''CAT''", unfolded w] onAscii_ascii asc [unfolded w] a
  have "evaluateAnswer asciiLower asciiTrim lesson (createExercises rotating lesson ! 3) ''CAT''"
    by blast
  moreover from ev [of "''c at''", unfolded w] onAscii_ascii asc [unfolded w] b
  have "\<not> evaluateAnswer asciiLower asciiTrim lesson (createExercises rotating lesson ! 3) ''c at''"
    by blast
  ultimately show ?thesis using ty tv w onAscii_ascii asc by simp
qed

text \<open>
  C5. For a guess-meaning or listening exercise whose target item is found, an answer is
  correct exactly when it is equal to the target's Vietnamese definition; for a guess-word
  exercise, exactly when it is equal to the target's headword. Nothing is trimmed or
  lower-cased: the right string followed by anything more, such as a punctuation mark, is
  incorrect.
\<close>

theorem choice_evaluation_exact:
  assumes "targetVocab vocab currentEx = Some t"
  shows "(type_ex currentEx = GuessMeaning \<or> type_ex currentEx = Listening \<longrightarrow>
            (evaluateAnswer toLowerCase trim vocab currentEx answer \<longleftrightarrow> answer = vietnameseDefinition t)
            \<and> (suffix \<noteq> [] \<longrightarrow>
                 \<not> evaluateAnswer toLowerCase trim vocab currentEx (vietnameseDefinition t @ suffix)))
       \<and> (type_ex currentEx = GuessWord \<longrightarrow>
            (evaluateAnswer toLowerCase trim vocab currentEx answer \<longleftrightarrow> answer = word t)
            \<and> (suffix \<noteq> [] \<longrightarrow> \<not> evaluateAnswer toLowerCase trim vocab currentEx (word t @ suffix)))"
  using assms by (auto simp: evaluateAnswer_def)

theorem choice_evaluation_exact_witness:
  "targetVocab lesson (createExercises rotating lesson ! 1)
       = Some (mkItem ''v0'' ''cat'' ''meo'')
   \<and> type_ex (createExercises rotating lesson ! 1) = GuessMeaning
   \<and> evaluateAnswer asciiLower asciiTrim lesson (createExercises rotating lesson ! 1) ''meo''
   \<and> \<not> evaluateAnswer asciiLower asciiTrim lesson (createExercises rotating lesson ! 1) ''meo.''
   \<and> \<not> evaluateAnswer asciiLower asciiTrim lesson (createExercises rotating lesson ! 1) ''Meo''
   \<and> targetVocab lesson (createExercises rotating lesson ! 2)
       = Some (mkItem ''v0'' ''cat'' ''meo'')
   \<and> type_ex (createExercises rotating lesson ! 2) = GuessWord
   \<and> evaluateAnswer asciiLower asciiTrim lesson (createExercises rotating lesson ! 2) ''cat''
   \<and> \<not> evaluateAnswer asciiLower asciiTrim lesson (createExercises rotating lesson ! 2) ''cat!''
   \<and> \<not> evaluateAnswer asciiLower asciiTrim lesson (createExercises rotating lesson ! 2) '' Cat ''"
proof -
  have t1: "type_ex (createExercises rotating lesson ! 1) = GuessMeaning"
    and f1: "targetVocab lesson (createExercises rotating lesson ! 1)
      = Some (mkItem ''v0'' ''cat'' ''meo'')"
    using lesson_GuessMeaning lesson_find_v0 by (simp_all add: targetVocab_def)
  have t2: "type_ex (createExercises rotating lesson ! 2) = GuessWord"
    and f2: "targetVocab lesson (createExercises rotating lesson ! 2)
      = Some (mkItem ''v0'' ''cat'' ''meo'')"
    using lesson_GuessWord lesson_find_v0 by (simp_all add: targetVocab_def)
  have d: "vietnameseDefinition (mkItem ''v0'' ''cat'' ''meo'') = ''meo''"
    and w: "word (mkItem ''v0'' ''cat'' ''meo'') = ''cat''"
    by (simp_all add: mkItem_def)
  from choice_evaluation_exact [OF f1, where toLowerCase = asciiLower and trim = asciiTrim and answer = "''meo''" and suffix = "''.''"]
    choice_evaluation_exact [OF f1, where toLowerCase = asciiLower and trim = asciiTrim and answer = "''Meo''" and suffix = "''.''"] t1 d
  have "evaluateAnswer asciiLower asciiTrim lesson (createExercises rotating lesson ! 1) ''meo''"
    and "\<not> evaluateAnswer asciiLower asciiTrim lesson (createExercises rotating lesson ! 1) ''meo.''"
    and "\<not> evaluateAnswer asciiLower asciiTrim lesson (createExercises rotating lesson ! 1) ''Meo''"
    by simp_all
  moreover from choice_evaluation_exact [OF f2, where toLowerCase = asciiLower and trim = asciiTrim and answer = "''cat''" and suffix = "''!''"]
    choice_evaluation_exact [OF f2, where toLowerCase = asciiLower and trim = asciiTrim and answer = "'' Cat ''" and suffix = "''!''"] t2 w
  have "evaluateAnswer asciiLower asciiTrim lesson (createExercises rotating lesson ! 2) ''cat''"
    and "\<not> evaluateAnswer asciiLower asciiTrim lesson (createExercises rotating lesson ! 2) ''cat!''"
    and "\<not> evaluateAnswer asciiLower asciiTrim lesson (createExercises rotating lesson ! 2) '' Cat ''"
    by simp_all
  ultimately show ?thesis using t1 f1 t2 f2 by simp
qed

text \<open>The state \<open>App\<close> starts in when nothing is stored.\<close>

definition freshSession :: Session where
  "freshSession =
     \<lparr>userState = \<lparr>xp = 0, streak_u = 1, currentLevel = Beginner, currentTopic = DailyLife\<rparr>,
      appMode = DASHBOARD, isLoading = False, vocabList = [], exercises = [],
      currentExerciseIndex = 0, feedback = None, isProcessingAI = False\<rparr>"

definition noHint :: hintProvider where
  "noHint t a ty = None"

lemma lesson_matching:
  "createExercises rotating lesson ! 25 = matchAll lesson"
  using createExercises_last [of rotating lesson] by (simp add: length_lesson)

lemma lesson_find_all: "find (\<lambda>v. id_v v = ''all'') lesson = None"
  by (simp add: lesson_def mkItem_def)

lemma tl_lesson_find_v0: "find (\<lambda>v. id_v v = ''v0'') (tl lesson) = None"
  by (simp add: lesson_def mkItem_def)

definition retargeted :: Exercise where
  "retargeted = (matchAll lesson)\<lparr>targetWordId := ''v0''\<rparr>"

text \<open>
  C6 (as amended). When the target reference of a fill-blank, listening, guess-meaning or
  guess-word exercise matches no item of the vocabulary list, every answer is incorrect,
  and \<open>handleAnswer\<close> on such a current exercise returns the state with the negative
  feedback, an empty hint and the experience points unchanged. A matching exercise is
  scored on the answer alone, whether or not its target reference matches an item: it is
  correct exactly when the answer is \<open>COMPLETE\<close>. Whatever exercise is on screen,
  \<open>handleAnswer\<close> does not throw.
\<close>

theorem missing_target_is_miss:
  "(targetVocab vocab currentEx = None
      \<and> (type_ex currentEx = FillBlank \<or> type_ex currentEx = Listening
           \<or> type_ex currentEx = GuessMeaning \<or> type_ex currentEx = GuessWord) \<longrightarrow>
      \<not> evaluateAnswer toLowerCase trim vocab currentEx answer
      \<and> (vocabList s = vocab \<and> elemAt (exercises s) (currentExerciseIndex s) = Some currentEx \<longrightarrow>
           handleAnswer toLowerCase trim hp s answer =
             Inr (s\<lparr>isProcessingAI := False,
                    feedback := Some \<lparr>isCorrect = False, message = msgWrong, hint = Some []\<rparr>\<rparr>)))
   \<and> (type_ex currentEx = Matching \<longrightarrow>
        (evaluateAnswer toLowerCase trim vocab currentEx answer \<longleftrightarrow> answer = ''COMPLETE''))
   \<and> (elemAt (exercises s) (currentExerciseIndex s) = Some currentEx \<longrightarrow>
        (\<exists>s'. handleAnswer toLowerCase trim hp s answer = Inr s'))"
proof -
  have miss: "\<not> evaluateAnswer toLowerCase trim vocab currentEx answer"
    if "targetVocab vocab currentEx = None"
      and "type_ex currentEx = FillBlank \<or> type_ex currentEx = Listening
        \<or> type_ex currentEx = GuessMeaning \<or> type_ex currentEx = GuessWord"
    using that by (auto simp: evaluateAnswer_def)
  have state: "handleAnswer toLowerCase trim hp s answer =
      Inr (s\<lparr>isProcessingAI := False,
             feedback := Some \<lparr>isCorrect = False, message = msgWrong, hint = Some []\<rparr>\<rparr>)"
    if "targetVocab vocab currentEx = None"
      and "type_ex currentEx = FillBlank \<or> type_ex currentEx = Listening
        \<or> type_ex currentEx = GuessMeaning \<or> type_ex currentEx = GuessWord"
      and "vocabList s = vocab" and "elemAt (exercises s) (currentExerciseIndex s) = Some currentEx"
    using that miss [OF that(1,2)] by (auto simp: handleAnswer_def Let_def)
  have matching: "evaluateAnswer toLowerCase trim vocab currentEx answer \<longleftrightarrow> answer = ''COMPLETE''"
    if "type_ex currentEx = Matching"
    using that by (simp add: evaluateAnswer_def)
  have returns: "\<exists>s'. handleAnswer toLowerCase trim hp s answer = Inr s'"
    if "elemAt (exercises s) (currentExerciseIndex s) = Some currentEx"
    using that by (simp add: handleAnswer_def Let_def)
  from miss state matching returns show ?thesis by blast
qed

theorem missing_target_is_miss_witness:
  "targetVocab (tl lesson) (createExercises rotating lesson ! 1) = None
   \<and> type_ex (createExercises rotating lesson ! 1) = GuessMeaning
   \<and> \<not> evaluateAnswer asciiLower asciiTrim (tl lesson) (createExercises rotating lesson ! 1) ''meo''
   \<and> handleAnswer asciiLower asciiTrim noHint
        (freshSession\<lparr>vocabList := tl lesson, exercises := createExercises rotating lesson,
                      currentExerciseIndex := 1\<rparr>) ''meo''
       = Inr (freshSession\<lparr>vocabList := tl lesson, exercises := createExercises rotating lesson,
                            currentExerciseIndex := 1, isProcessingAI := False,
                            feedback := Some \<lparr>isCorrect = False, message = msgWrong, hint = Some []\<rparr>\<rparr>)
   \<and> targetVocab lesson (createExercises rotating lesson ! 25) = None
   \<and> type_ex (createExercises rotating lesson ! 25) = Matching
   \<and> evaluateAnswer asciiLower asciiTrim lesson (createExercises rotating lesson ! 25) ''COMPLETE''
   \<and> \<not> evaluateAnswer asciiLower asciiTrim lesson (createExercises rotating lesson ! 25) ''meo''
   \<and> targetVocab lesson retargeted = Some (mkItem ''v0'' ''cat'' ''meo'')
   \<and> type_ex retargeted = Matching
   \<and> evaluateAnswer asciiLower asciiTrim lesson retargeted ''COMPLETE''
   \<and> \<not> evaluateAnswer asciiLower asciiTrim lesson retargeted ''meo''"
proof -
  let ?s = "freshSession\<lparr>vocabList := tl lesson, exercises := createExercises rotating lesson,
                          currentExerciseIndex := 1\<rparr>"
  have f1: "targetVocab (tl lesson) (createExercises rotating lesson ! 1) = None"
    and t1: "type_ex (createExercises rotating lesson ! 1) = GuessMeaning"
    using lesson_GuessMeaning tl_lesson_find_v0 by (simp_all add: targetVocab_def)
  have cur: "vocabList ?s = tl lesson"
    "elemAt (exercises ?s) (currentExerciseIndex ?s) = Some (createExercises rotating lesson ! 1)"
    by (simp_all add: elemAt_def length_createExercises length_lesson)
  have f25: "targetVocab lesson (createExercises rotating lesson ! 25) = None"
    and t25: "type_ex (createExercises rotating lesson ! 25) = Matching"
    using lesson_find_all by (simp_all add: lesson_matching matchAll_def targetVocab_def)
  have fr: "targetVocab lesson retargeted = Some (mkItem ''v0'' ''cat'' ''meo'')"
    and tr: "type_ex retargeted = Matching"
    using lesson_find_v0 by (simp_all add: retargeted_def matchAll_def targetVocab_def)
  note gm = missing_target_is_miss [where toLowerCase = asciiLower and trim = asciiTrim
      and vocab = "tl lesson" and currentEx = "createExercises rotating lesson ! 1"
      and answer = "''meo''" and s = ?s and hp = noHint]
  from gm f1 t1 cur
  have "\<not> evaluateAnswer asciiLower asciiTrim (tl lesson) (createExercises rotating lesson ! 1) ''meo''"
    and "handleAnswer asciiLower asciiTrim noHint ?s ''meo'' =
       Inr (?s\<lparr>isProcessingAI := False,
               feedback := Some \<lparr>isCorrect = False, message = msgWrong, hint = Some []\<rparr>\<rparr>)"
    by simp_all
  moreover from t25
    missing_target_is_miss [where toLowerCase = asciiLower and trim = asciiTrim
      and vocab = lesson and currentEx = "createExercises rotating lesson ! 25"
      and answer = "''COMPLETE''"]
    missing_target_is_miss [where toLowerCase = asciiLower and trim = asciiTrim
      and vocab = lesson and currentEx = "createExercises rotating lesson ! 25"
      and answer = "''meo''"]
  have "evaluateAnswer asciiLower asciiTrim lesson (createExercises rotating lesson ! 25) ''COMPLETE''"
    and "\<not> evaluateAnswer asciiLower asciiTrim lesson (createExercises rotating lesson ! 25) ''meo''"
    by simp_all
  moreover from tr
    missing_target_is_miss [where toLowerCase = asciiLower and trim = asciiTrim
      and vocab = lesson and currentEx = retargeted and answer = "''COMPLETE''"]
    missing_target_is_miss [where toLowerCase = asciiLower and trim = asciiTrim
      and vocab = lesson and currentEx = retargeted and answer = "''meo''"]
  have "evaluateAnswer asciiLower asciiTrim lesson retargeted ''COMPLETE''"
    and "\<not> evaluateAnswer asciiLower asciiTrim lesson retargeted ''meo''"
    by simp_all
  ultimately show ?thesis using f1 t1 f25 t25 fr tr by simp
qed

text \<open>
  C6 as written fails on the matching exercise: its target reference \<open>all\<close> matches no
  item, it is not a flashcard, and the answer \<open>COMPLETE\<close> is scored correct.
\<close>

theorem matching_target_counterexample:
  "type_ex (createExercises rotating lesson ! 25) \<noteq> Flashcard
   \<and> targetWordId (createExercises rotating lesson ! 25) = ''all''
   \<and> targetVocab lesson (createExercises rotating lesson ! 25) = None
   \<and> evaluateAnswer asciiLower asciiTrim lesson (createExercises rotating lesson ! 25) ''COMPLETE''"
  using lesson_find_all by (simp add: lesson_matching matchAll_def evaluateAnswer_def targetVocab_def)

section \<open>A session answered correctly at the first attempt\<close>

text \<open>An answer that \<open>handleAnswer\<close> accepts, for an exercise whose target is found.\<close>

definition rightAnswer :: "VocabularyItem list \<Rightarrow> Exercise \<Rightarrow> string" where
  "rightAnswer vocab e =
     (if type_ex e = Matching then ''COMPLETE''
      else case targetVocab vocab e of
             None \<Rightarrow> []
           | Some t \<Rightarrow> if type_ex e = GuessWord \<or> type_ex e = FillBlank then word t
                       else vietnameseDefinition t)"

lemma run_append:
  "run toLowerCase trim hp s (evs @ evs') = (case run toLowerCase trim hp s evs of Inl e \<Rightarrow> Inl e | Inr s' \<Rightarrow> run toLowerCase trim hp s' evs')"
  by (induction evs arbitrary: s) (simp_all split: sum.splits)

lemma firstAttempts_unfold:
  "k < length exs \<Longrightarrow>
     firstAttempts exs ans k =
       (if type_ex (exs ! k) = Flashcard then [Next] else [Answer (ans k), Next])
       @ firstAttempts exs ans (Suc k)"
  by (simp add: firstAttempts_def upt_conv_Cons)

lemma firstAttempts_end: "length exs \<le> k \<Longrightarrow> firstAttempts exs ans k = []"
  by (simp add: firstAttempts_def)

text \<open>The events of one exercise: what they leave of the state.\<close>

lemma one_exercise:
  assumes "k < length (exercises s)" and "currentExerciseIndex s = int k"
    and "type_ex (exercises s ! k) \<noteq> Flashcard \<longrightarrow>
           evaluateAnswer toLowerCase trim (vocabList s) (exercises s ! k) a"
  shows "\<exists>s1. run toLowerCase trim hp s (if type_ex (exercises s ! k) = Flashcard then [Next]
                          else [Answer a, Next]) = Inr s1
            \<and> xp (userState s1) =
                xp (userState s) + (if type_ex (exercises s ! k) = Flashcard then 0 else 10)
            \<and> currentExerciseIndex s1 = (if Suc k < length (exercises s) then int (Suc k) else -1)
            \<and> exercises s1 = exercises s \<and> vocabList s1 = vocabList s"
proof (cases "type_ex (exercises s ! k) = Flashcard")
  case True
  then show ?thesis
    using assms(1,2) by (auto simp: nextExercise_def)
next
  case False
  have cur: "elemAt (exercises s) (currentExerciseIndex s) = Some (exercises s ! k)"
    using assms(1,2) by (simp add: elemAt_def)
  have "handleAnswer toLowerCase trim hp s a =
      Inr (s\<lparr>userState := (userState s)\<lparr>xp := xp (userState s) + 10\<rparr>,
             feedback := Some \<lparr>isCorrect = True, message = msgCorrect,
               hint = Some (case targetVocab (vocabList s) (exercises s ! k) of
                              Some t \<Rightarrow> [CHR 0x22] @ word t @ [CHR 0x22] @ '': ''
                                @ vietnameseDefinition t @ [CHR 0x0A] @ ''Example: ''
                                @ exampleSentence t
                            | None \<Rightarrow> msgWellDone)\<rparr>\<rparr>)"
    using False assms(3) cur by (simp add: handleAnswer_def)
  then show ?thesis
    using False assms(1,2) by (auto simp: nextExercise_def)
qed

lemma run_firstAttempts:
  assumes "k < length (exercises s)" and "currentExerciseIndex s = int k"
    and "\<forall>j. k \<le> j \<and> j < length (exercises s) \<and> type_ex (exercises s ! j) \<noteq> Flashcard \<longrightarrow>
           evaluateAnswer toLowerCase trim (vocabList s) (exercises s ! j) (ans j)"
  shows "\<exists>s'. run toLowerCase trim hp s (firstAttempts (exercises s) ans k) = Inr s'
            \<and> xp (userState s') = xp (userState s)
                + 10 * int (length (filter (\<lambda>e. type_ex e \<noteq> Flashcard) (drop k (exercises s))))
            \<and> currentExerciseIndex s' = -1
            \<and> exercises s' = exercises s"
  using assms
proof (induction "length (exercises s) - k" arbitrary: s k)
  case 0
  then show ?case by simp
next
  case (Suc n)
  let ?exs = "exercises s"
  let ?evs = "if type_ex (?exs ! k) = Flashcard then [Next] else [Answer (ans k), Next]"
  have ans_k: "type_ex (?exs ! k) \<noteq> Flashcard \<longrightarrow> evaluateAnswer toLowerCase trim (vocabList s) (?exs ! k) (ans k)"
    using Suc.prems by simp
  from one_exercise [where a = "ans k" and hp = hp, OF Suc.prems(1,2) ans_k]
  obtain s1 where s1: "run toLowerCase trim hp s ?evs = Inr s1"
    and xp1: "xp (userState s1) = xp (userState s) + (if type_ex (?exs ! k) = Flashcard then 0 else 10)"
    and idx1: "currentExerciseIndex s1 = (if Suc k < length ?exs then int (Suc k) else -1)"
    and exs1: "exercises s1 = ?exs" and voc1: "vocabList s1 = vocabList s"
    by blast
  have unfold: "firstAttempts ?exs ans k = ?evs @ firstAttempts ?exs ans (Suc k)"
    by (rule firstAttempts_unfold [OF Suc.prems(1)])
  have run_k: "run toLowerCase trim hp s (firstAttempts ?exs ans k) = run toLowerCase trim hp s1 (firstAttempts ?exs ans (Suc k))"
    unfolding unfold run_append s1 by simp
  have drop_k: "drop k ?exs = ?exs ! k # drop (Suc k) ?exs"
    using Suc.prems(1) by (simp add: Cons_nth_drop_Suc)
  show ?case
  proof (cases "Suc k < length ?exs")
    case True
    have n: "n = length (exercises s1) - Suc k" using Suc.hyps(2) exs1 by simp
    have k1: "Suc k < length (exercises s1)" using True exs1 by simp
    have i1: "currentExerciseIndex s1 = int (Suc k)" using idx1 True by simp
    have a1: "\<forall>j. Suc k \<le> j \<and> j < length (exercises s1) \<and> type_ex (exercises s1 ! j) \<noteq> Flashcard \<longrightarrow>
           evaluateAnswer toLowerCase trim (vocabList s1) (exercises s1 ! j) (ans j)"
      using Suc.prems(3) exs1 voc1 by simp
    from Suc.hyps(1) [OF n k1 i1 a1]
    obtain s' where "run toLowerCase trim hp s1 (firstAttempts (exercises s1) ans (Suc k)) = Inr s'"
      and "xp (userState s') = xp (userState s1)
             + 10 * int (length (filter (\<lambda>e. type_ex e \<noteq> Flashcard) (drop (Suc k) (exercises s1))))"
      and "currentExerciseIndex s' = -1" and "exercises s' = exercises s1"
      by blast
    then show ?thesis
      unfolding run_k drop_k using xp1 exs1 by simp
  next
    case False
    then have last: "length ?exs = Suc k" using Suc.prems(1) by simp
    have "firstAttempts ?exs ans (Suc k) = []"
      by (rule firstAttempts_end) (simp add: last)
    then show ?thesis
      unfolding run_k drop_k using xp1 idx1 exs1 last by simp
  qed
qed

lemma types_createExercises:
  "map type_ex (createExercises sh vocab) =
     concat (replicate (length vocab) [Flashcard, GuessMeaning, GuessWord, FillBlank, Listening])
     @ [Matching]"
  by (simp add: createExercises_def types_forEach_push matchAll_def)

lemma scored_createExercises:
  assumes "length vocab = 5"
  shows "length (filter (\<lambda>e. type_ex e \<noteq> Flashcard) (createExercises sh vocab)) = 21"
proof -
  have "length (filter (\<lambda>e. type_ex e \<noteq> Flashcard) (createExercises sh vocab))
      = length (filter (\<lambda>t. t \<noteq> Flashcard) (map type_ex (createExercises sh vocab)))"
    by (simp add: filter_map comp_def)
  also have "\<dots> = 21"
    unfolding types_createExercises assms by (simp add: numeral_eq_Suc)
  finally show ?thesis .
qed

lemma target_createExercises:
  assumes "n < 5 * length vocab"
  shows "targetWordId (createExercises sh vocab ! n) = id_v (vocab ! (n div 5))"
proof -
  have "n mod 5 < length (itemExercises sh (2 * (n div 5)) vocab (vocab ! (n div 5)))"
    by (simp add: length_itemExercises)
  then have "targetWordId (itemExercises sh (2 * (n div 5)) vocab (vocab ! (n div 5)) ! (n mod 5))
      = map targetWordId (itemExercises sh (2 * (n div 5)) vocab (vocab ! (n div 5))) ! (n mod 5)"
    by (rule nth_map [symmetric])
  then show ?thesis
    by (simp add: createExercises_position [OF assms] targets_itemExercises)
qed

lemma targetVocab_createExercises:
  assumes "n < 5 * length vocab"
  shows "targetVocab vocab (createExercises sh vocab ! n) \<noteq> None"
proof -
  have "vocab ! (n div 5) \<in> set vocab" using assms by simp
  then show ?thesis
    unfolding targetVocab_def target_createExercises [OF assms] find_None_iff by blast
qed

lemma rightAnswer_accepted:
  assumes "type_ex e \<noteq> Flashcard" and "type_ex e = Matching \<or> targetVocab vocab e \<noteq> None"
  shows "evaluateAnswer toLowerCase trim vocab e (rightAnswer vocab e)"
  using assms by (cases "type_ex e") (auto simp: evaluateAnswer_def rightAnswer_def)

lemma rightAnswer_createExercises:
  assumes "j < length (createExercises sh vocab)"
    and "type_ex (createExercises sh vocab ! j) \<noteq> Flashcard"
  shows "evaluateAnswer toLowerCase trim vocab (createExercises sh vocab ! j)
           (rightAnswer vocab (createExercises sh vocab ! j))"
proof (cases "j < 5 * length vocab")
  case True
  show ?thesis
    by (rule rightAnswer_accepted [OF assms(2)]) (simp add: targetVocab_createExercises [OF True])
next
  case False
  with assms(1) have "j = 5 * length vocab" by (simp add: length_createExercises)
  then have "type_ex (createExercises sh vocab ! j) = Matching"
    by (simp add: createExercises_last matchAll_def)
  then show ?thesis
    by (intro rightAnswer_accepted [OF assms(2)]) simp
qed

text \<open>
  C3. In the session of a 5-item vocabulary set (26 exercises), when the learner turns
  every flashcard over and every other exercise is answered once, with an answer that is
  evaluated correct, the session ends on the summary screen with exactly 210 experience
  points added to the user state (10 for each of the 21 exercises that are not flashcards),
  while the summary screen shows 26 times 10 = 260; the two figures differ.
\<close>

theorem perfect_session_xp:
  assumes "length vocab = 5"
    and "\<forall>j < 26. type_ex (createExercises sh vocab ! j) \<noteq> Flashcard \<longrightarrow>
           evaluateAnswer toLowerCase trim vocab (createExercises sh vocab ! j) (ans j)"
  shows "\<exists>s'. run toLowerCase trim hp (startSession sh (Some vocab) s)
                 (firstAttempts (createExercises sh vocab) ans 0) = Inr s'
            \<and> xp (userState s') = xp (userState s) + 210
            \<and> currentExerciseIndex s' = -1
            \<and> summaryXP s' = 260
            \<and> xp (userState s') - xp (userState s) \<noteq> summaryXP s'"
proof -
  let ?s0 = "startSession sh (Some vocab) s"
  have exs: "exercises ?s0 = createExercises sh vocab"
    and voc: "vocabList ?s0 = vocab"
    and idx: "currentExerciseIndex ?s0 = int 0"
    and usr: "userState ?s0 = userState s"
    by (simp_all add: startSession_def)
  have len: "length (createExercises sh vocab) = 26"
    using assms(1) by (simp add: length_createExercises)
  have pos: "0 < length (exercises ?s0)"
    unfolding exs len by simp
  have answers: "\<forall>j. 0 \<le> j \<and> j < length (exercises ?s0) \<and> type_ex (exercises ?s0 ! j) \<noteq> Flashcard \<longrightarrow>
      evaluateAnswer toLowerCase trim (vocabList ?s0) (exercises ?s0 ! j) (ans j)"
    unfolding exs voc len using assms(2) by simp
  from run_firstAttempts [OF pos idx answers, where hp = hp]
  obtain s' where r: "run toLowerCase trim hp ?s0 (firstAttempts (exercises ?s0) ans 0) = Inr s'"
    and x: "xp (userState s') = xp (userState ?s0)
        + 10 * int (length (filter (\<lambda>e. type_ex e \<noteq> Flashcard) (drop 0 (exercises ?s0))))"
    and i: "currentExerciseIndex s' = -1" and e: "exercises s' = exercises ?s0"
    by blast
  have x': "xp (userState s') = xp (userState s) + 210"
    using x unfolding exs usr by (simp add: scored_createExercises [OF assms(1)])
  have sm: "summaryXP s' = 260"
    unfolding summaryXP_def e exs len by simp
  from r x' i sm show ?thesis
    unfolding exs by simp
qed

theorem perfect_session_xp_witness:
  "length lesson = 5
   \<and> list_all (\<lambda>j. type_ex (createExercises rotating lesson ! j) \<noteq> Flashcard \<longrightarrow>
                   evaluateAnswer asciiLower asciiTrim lesson (createExercises rotating lesson ! j)
                     (rightAnswer lesson (createExercises rotating lesson ! j))) [0 ..< 26]
   \<and> (\<exists>s'. run asciiLower asciiTrim noHint (startSession rotating (Some lesson) freshSession)
               (firstAttempts (createExercises rotating lesson)
                  (\<lambda>j. rightAnswer lesson (createExercises rotating lesson ! j)) 0) = Inr s'
          \<and> xp (userState s') = 210
          \<and> currentExerciseIndex s' = -1
          \<and> summaryXP s' = 260)"
proof -
  have len: "length (createExercises rotating lesson) = 26"
    by (simp add: length_createExercises length_lesson)
  have answers: "\<forall>j < 26. type_ex (createExercises rotating lesson ! j) \<noteq> Flashcard \<longrightarrow>
      evaluateAnswer asciiLower asciiTrim lesson (createExercises rotating lesson ! j)
        (rightAnswer lesson (createExercises rotating lesson ! j))"
    using rightAnswer_createExercises [of _ rotating lesson] len by simp
  have "xp (userState freshSession) = 0"
    by (simp add: freshSession_def)
  with perfect_session_xp [OF length_lesson answers, where hp = noHint and s = freshSession]
  have "\<exists>s'. run asciiLower asciiTrim noHint (startSession rotating (Some lesson) freshSession)
               (firstAttempts (createExercises rotating lesson)
                  (\<lambda>j. rightAnswer lesson (createExercises rotating lesson ! j)) 0) = Inr s'
          \<and> xp (userState s') = 210
          \<and> currentExerciseIndex s' = -1
          \<and> summaryXP s' = 260"
    by auto
  moreover have "list_all (\<lambda>j. type_ex (createExercises rotating lesson ! j) \<noteq> Flashcard \<longrightarrow>
                   evaluateAnswer asciiLower asciiTrim lesson (createExercises rotating lesson ! j)
                     (rightAnswer lesson (createExercises rotating lesson ! j))) [0 ..< 26]"
    using answers by (simp add: list_all_iff)
  ultimately show ?thesis using length_lesson by blast
qed

section \<open>The matching exercise (ExerciseRenderer, handleMatch)\<close>

record MatchingSelections =
  left :: "string option"
  right :: "string option"

text \<open>The local state of \<open>ExerciseRenderer\<close>.\<close>

record Renderer =
  selectedOption :: "string option"
  fillBlankInput :: string
  matchingSelections :: MatchingSelections
  matchedPairs :: "string list"

definition initialRenderer :: Renderer where
  "initialRenderer =
     \<lparr>selectedOption = None, fillBlankInput = [],
      matchingSelections = \<lparr>left = None, right = None\<rparr>, matchedPairs = []\<rparr>"

datatype side = Left | Right

text \<open>
  \<open>handleMatch\<close> for the pairs of the exercise, the state, the identifier clicked and the
  column. It returns the new state, the answers passed to \<open>onAnswer\<close>, and whether a
  reset of the selections has been scheduled with \<open>setTimeout\<close>. A selection counts in
  the test \<open>newSelection.left && newSelection.right\<close> when it is set and not the empty
  string.
\<close>

definition handleMatch :: "MatchingPair list \<Rightarrow> Renderer \<Rightarrow> string \<Rightarrow> side \<Rightarrow> Renderer \<times> string list \<times> bool" where
  "handleMatch pairs r i sd =
     (if i \<in> set (matchedPairs r) then (r, [], False)
      else
        (let newSelection = (case sd of
                               Left \<Rightarrow> (matchingSelections r)\<lparr>left := Some i\<rparr>
                             | Right \<Rightarrow> (matchingSelections r)\<lparr>right := Some i\<rparr>);
             r1 = r\<lparr>matchingSelections := newSelection\<rparr>
         in case (left newSelection, right newSelection) of
              (Some l, Some d) \<Rightarrow>
                if l \<noteq> [] \<and> d \<noteq> [] then
                  (case find (\<lambda>p. wordId p = l \<and> definition_p p = d) pairs of
                     Some pair \<Rightarrow>
                       (let newMatched = matchedPairs r @ [l, d]
                        in (r1\<lparr>matchedPairs := newMatched,
                               matchingSelections := \<lparr>left = None, right = None\<rparr>\<rparr>,
                            if length newMatched = length pairs * 2 then [''COMPLETE''] else [],
                            False))
                   | None \<Rightarrow> (r1, [], True))
                else (r1, [], False)
            | _ \<Rightarrow> (r1, [], False)))"

text \<open>The callback of the timeout.\<close>

definition resetSelections :: "Renderer \<Rightarrow> Renderer" where
  "resetSelections r = r\<lparr>matchingSelections := \<lparr>left = None, right = None\<rparr>\<rparr>"

text \<open>
  What happens to the renderer while a matching exercise is on screen: a click on a word
  or a definition, or a scheduled reset firing (taken to fire at any moment).
\<close>

datatype matchEvent = Click string side | Timeout

fun matchStep :: "MatchingPair list \<Rightarrow> Renderer \<Rightarrow> matchEvent \<Rightarrow> Renderer" where
  "matchStep pairs r (Click i sd) = fst (handleMatch pairs r i sd)"
| "matchStep pairs r Timeout = resetSelections r"

definition afterEvents :: "MatchingPair list \<Rightarrow> matchEvent list \<Rightarrow> Renderer" where
  "afterEvents pairs evs = foldl (matchStep pairs) initialRenderer evs"

text \<open>
  The pairs confirmed so far: \<open>matchedPairs\<close> holds, for each confirmed pair in turn, its
  word identifier and then its definition.
\<close>

fun confirmed :: "string list \<Rightarrow> MatchingPair list" where
  "confirmed (l # d # rest) = \<lparr>wordId = l, definition_p = d\<rparr> # confirmed rest"
| "confirmed _ = []"

text \<open>
  What every state reached from the empty one satisfies: the entries of \<open>matchedPairs\<close>
  come in twos, each two a declared pair, no pair twice, and both sides of every
  confirmed pair are entries of \<open>matchedPairs\<close>.
\<close>

definition matchInv :: "MatchingPair list \<Rightarrow> Renderer \<Rightarrow> bool" where
  "matchInv pairs r =
     (even (length (matchedPairs r))
      \<and> set (confirmed (matchedPairs r)) \<subseteq> set pairs
      \<and> distinct (confirmed (matchedPairs r))
      \<and> (\<forall>p \<in> set (confirmed (matchedPairs r)).
            wordId p \<in> set (matchedPairs r) \<and> definition_p p \<in> set (matchedPairs r)))"

lemma confirmed_append:
  "even (length m) \<Longrightarrow> confirmed (m @ [l, d]) = confirmed m @ [\<lparr>wordId = l, definition_p = d\<rparr>]"
  by (induction m rule: confirmed.induct) simp_all

lemma length_confirmed: "even (length m) \<Longrightarrow> 2 * length (confirmed m) = length m"
  by (induction m rule: confirmed.induct) simp_all

lemma find_pair:
  "find (\<lambda>p. wordId p = l \<and> definition_p p = d) pairs = Some pair \<Longrightarrow>
     \<lparr>wordId = l, definition_p = d\<rparr> \<in> set pairs"
  by (induction pairs) (auto split: if_splits)

text \<open>What \<open>handleMatch\<close> does to \<open>matchedPairs\<close>: nothing, or one more pair.\<close>

lemma handleMatch_matched:
  assumes "handleMatch pairs r i sd = (r', answers, t)"
  shows "(matchedPairs r' = matchedPairs r \<and> answers = [])
       \<or> (\<exists>l d. matchedPairs r' = matchedPairs r @ [l, d]
               \<and> \<lparr>wordId = l, definition_p = d\<rparr> \<in> set pairs
               \<and> i \<notin> set (matchedPairs r) \<and> (i = l \<or> i = d)
               \<and> answers = (if length (matchedPairs r') = length pairs * 2 then [''COMPLETE''] else []))"
proof (cases "i \<in> set (matchedPairs r)")
  case True
  with assms show ?thesis by (simp add: handleMatch_def)
next
  case False
  show ?thesis
  proof (cases sd)
    case Left
    with False assms show ?thesis
      by (auto simp: handleMatch_def Let_def dest: find_pair
               split: option.splits if_splits)
  next
    case Right
    with False assms show ?thesis
      by (auto simp: handleMatch_def Let_def dest: find_pair
               split: option.splits if_splits)
  qed
qed

lemma matchInv_handleMatch:
  assumes "matchInv pairs r" and "handleMatch pairs r i sd = (r', answers, t)"
  shows "matchInv pairs r'"
proof -
  from handleMatch_matched [OF assms(2)] consider
      (same) "matchedPairs r' = matchedPairs r"
    | (more) l d where "matchedPairs r' = matchedPairs r @ [l, d]"
        "\<lparr>wordId = l, definition_p = d\<rparr> \<in> set pairs"
        "i \<notin> set (matchedPairs r)" "i = l \<or> i = d"
    by blast
  then show ?thesis
  proof cases
    case same
    with assms(1) show ?thesis by (simp add: matchInv_def)
  next
    case more
    let ?m = "matchedPairs r"
    let ?p = "\<lparr>wordId = l, definition_p = d\<rparr>"
    from assms(1) have ev: "even (length ?m)"
      and sub: "set (confirmed ?m) \<subseteq> set pairs"
      and dist: "distinct (confirmed ?m)"
      and sides: "\<forall>p \<in> set (confirmed ?m). wordId p \<in> set ?m \<and> definition_p p \<in> set ?m"
      by (simp_all add: matchInv_def)
    have conf: "confirmed (matchedPairs r') = confirmed ?m @ [?p]"
      unfolding more(1) by (rule confirmed_append [OF ev])
    have new: "?p \<notin> set (confirmed ?m)"
    proof
      assume "?p \<in> set (confirmed ?m)"
      with sides have "l \<in> set ?m \<and> d \<in> set ?m" by fastforce
      with more(3,4) show False by blast
    qed
    have "even (length (matchedPairs r'))"
      unfolding more(1) using ev by simp
    moreover have "set (confirmed (matchedPairs r')) \<subseteq> set pairs"
      unfolding conf using sub more(2) by simp
    moreover have "distinct (confirmed (matchedPairs r'))"
      unfolding conf using dist new by simp
    moreover have "\<forall>p \<in> set (confirmed (matchedPairs r')).
        wordId p \<in> set (matchedPairs r') \<and> definition_p p \<in> set (matchedPairs r')"
      unfolding conf using sides by (auto simp: more(1))
    ultimately show ?thesis by (simp add: matchInv_def)
  qed
qed

lemma matchInv_matchStep: "matchInv pairs r \<Longrightarrow> matchInv pairs (matchStep pairs r ev)"
proof (cases ev)
  case (Click i sd)
  assume "matchInv pairs r"
  then show ?thesis
    using matchInv_handleMatch [of pairs r i sd] Click
    by (cases "handleMatch pairs r i sd") simp
next
  case Timeout
  assume "matchInv pairs r"
  then show ?thesis
    using Timeout by (simp add: matchInv_def resetSelections_def)
qed

lemma matchInv_foldl:
  "matchInv pairs r \<Longrightarrow> matchInv pairs (foldl (matchStep pairs) r evs)"
  by (induction evs arbitrary: r) (simp_all add: matchInv_matchStep)

lemma matchInv_afterEvents: "matchInv pairs (afterEvents pairs evs)"
  unfolding afterEvents_def
  by (rule matchInv_foldl) (simp add: matchInv_def initialRenderer_def)

text \<open>When the entries are twice as many as the declared pairs, every declared pair is confirmed.\<close>

lemma matchInv_complete:
  assumes "matchInv pairs r" and "length (matchedPairs r) = length pairs * 2"
  shows "set (confirmed (matchedPairs r)) = set pairs"
proof -
  let ?c = "confirmed (matchedPairs r)"
  from assms(1) have ev: "even (length (matchedPairs r))"
    and sub: "set ?c \<subseteq> set pairs" and dist: "distinct ?c"
    by (simp_all add: matchInv_def)
  have "length ?c = length pairs"
    using length_confirmed [OF ev] assms(2) by simp
  then have "card (set pairs) \<le> card (set ?c)"
    using dist card_length [of pairs] by (simp add: distinct_card)
  with sub show ?thesis
    by (simp add: card_seteq)
qed

section \<open>Claims about the matching exercise\<close>

text \<open>
  C7. Start from the empty confirmed set and let any clicks and resets happen. If the next
  click makes \<open>handleMatch\<close> submit the answer \<open>COMPLETE\<close>, then in the state it leaves
  the confirmed pairs are exactly the declared pairs, and both sides of every declared
  pair are in \<open>matchedPairs\<close>. A click on a word or definition that is already confirmed
  changes nothing: the state (confirmed entries and pending selections) stays as it is and
  no answer is submitted.
\<close>

theorem complete_only_when_all_confirmed:
  assumes "handleMatch pairs (afterEvents pairs evs) i sd = (r', answers, t)"
  shows "(''COMPLETE'' \<in> set answers \<longrightarrow>
            set (confirmed (matchedPairs r')) = set pairs
            \<and> (\<forall>p \<in> set pairs. wordId p \<in> set (matchedPairs r')
                                 \<and> definition_p p \<in> set (matchedPairs r')))
       \<and> (i \<in> set (matchedPairs (afterEvents pairs evs)) \<longrightarrow>
            r' = afterEvents pairs evs \<and> answers = [] \<and> \<not> t)"
proof -
  let ?r = "afterEvents pairs evs"
  have inv: "matchInv pairs ?r" by (rule matchInv_afterEvents)
  have inv': "matchInv pairs r'" by (rule matchInv_handleMatch [OF inv assms])
  have all: "set (confirmed (matchedPairs r')) = set pairs
      \<and> (\<forall>p \<in> set pairs. wordId p \<in> set (matchedPairs r') \<and> definition_p p \<in> set (matchedPairs r'))"
    if "''COMPLETE'' \<in> set answers"
  proof -
    from handleMatch_matched [OF assms] that
    have "length (matchedPairs r') = length pairs * 2"
      by (auto split: if_splits)
    then have eq: "set (confirmed (matchedPairs r')) = set pairs"
      by (rule matchInv_complete [OF inv'])
    with inv' show ?thesis by (simp add: matchInv_def)
  qed
  have again: "r' = ?r \<and> answers = [] \<and> \<not> t" if "i \<in> set (matchedPairs ?r)"
    using that assms by (simp add: handleMatch_def)
  from all again show ?thesis by blast
qed

definition twoPairs :: "MatchingPair list" where
  "twoPairs = [\<lparr>wordId = ''v0'', definition_p = ''meo''\<rparr>, \<lparr>wordId = ''v1'', definition_p = ''cho''\<rparr>]"

definition twoPairsClicks :: "matchEvent list" where
  "twoPairsClicks = [Click ''v1'' Left, Click ''meo'' Right, Timeout, Click ''cho'' Right,
                   Click ''v1'' Left, Click ''meo'' Right]"

lemma twoPairsClicks_state:
  "afterEvents twoPairs twoPairsClicks =
     \<lparr>selectedOption = None, fillBlankInput = [],
      matchingSelections = \<lparr>left = None, right = Some ''meo''\<rparr>,
      matchedPairs = [''v1'', ''cho'']\<rparr>"
  by code_simp

lemma twoPairsClicks_complete:
  "handleMatch twoPairs (afterEvents twoPairs twoPairsClicks) ''v0'' Left =
     (\<lparr>selectedOption = None, fillBlankInput = [],
       matchingSelections = \<lparr>left = None, right = None\<rparr>,
       matchedPairs = [''v1'', ''cho'', ''v0'', ''meo'']\<rparr>, [''COMPLETE''], False)"
  by code_simp

lemma twoPairsClicks_again:
  "handleMatch twoPairs (afterEvents twoPairs twoPairsClicks) ''cho'' Right =
     (afterEvents twoPairs twoPairsClicks, [], False)"
  by code_simp

theorem complete_only_when_all_confirmed_witness:
  "handleMatch twoPairs (afterEvents twoPairs twoPairsClicks) ''v0'' Left =
     (\<lparr>selectedOption = None, fillBlankInput = [],
       matchingSelections = \<lparr>left = None, right = None\<rparr>,
       matchedPairs = [''v1'', ''cho'', ''v0'', ''meo'']\<rparr>, [''COMPLETE''], False)
   \<and> ''COMPLETE'' \<in> set [''COMPLETE'']
   \<and> set (confirmed [''v1'', ''cho'', ''v0'', ''meo'']) = set twoPairs
   \<and> ''cho'' \<in> set (matchedPairs (afterEvents twoPairs twoPairsClicks))
   \<and> handleMatch twoPairs (afterEvents twoPairs twoPairsClicks) ''cho'' Right =
       (afterEvents twoPairs twoPairsClicks, [], False)"
proof -
  have "set (confirmed [''v1'', ''cho'', ''v0'', ''meo'']) = set twoPairs"
    using complete_only_when_all_confirmed [OF twoPairsClicks_complete] by simp
  moreover have "''cho'' \<in> set (matchedPairs (afterEvents twoPairs twoPairsClicks))"
    by (simp add: twoPairsClicks_state)
  moreover have "handleMatch twoPairs (afterEvents twoPairs twoPairsClicks) ''cho'' Right =
       (afterEvents twoPairs twoPairsClicks, [], False)"
    by (rule twoPairsClicks_again)
  ultimately show ?thesis
    using twoPairsClicks_complete by simp
qed

section \<open>Word Rush (WordRushGame)\<close>

text \<open>
  The numbers of the game state are reals: a double is one. Round indices, lives, the
  streak and the score only ever hold whole numbers, so they are \<open>nat\<close> and \<open>int\<close>. The
  product \<open>timeLeft * 10\<close> is a product of doubles, which rounds; it is the parameter
  \<open>fmul\<close> of \<open>handleAnswer_game\<close>.
\<close>

datatype GameState = LOADING | PLAYING | GAME_OVER

datatype Feedback = HIT | MISS

record WordRush =
  gameState :: GameState
  words :: "VocabularyItem list"
  currentIndex :: nat
  score :: int
  lives :: int
  timeLeft :: real
  maxTime :: real
  options_g :: "string list"
  playerName :: string
  streak :: int
  feedback_g :: "Feedback option"

text \<open>The time budget of the round at \<open>index\<close>: \<open>Math.max(3, 10 - Math.floor(index / 3))\<close>.\<close>

definition newMaxTime :: "nat \<Rightarrow> real" where
  "newMaxTime index = max 3 (10 - of_int \<lfloor>real index / 3\<rfloor>)"

text \<open>
  \<open>prepareRound\<close>. The two random sorts are parameters: \<open>shW\<close> for the one of the other
  words, \<open>shS\<close> for the one of the options.
\<close>

definition prepareRound :: "(VocabularyItem list \<Rightarrow> VocabularyItem list) \<Rightarrow> (string list \<Rightarrow> string list)
    \<Rightarrow> nat \<Rightarrow> VocabularyItem list \<Rightarrow> WordRush \<Rightarrow> WordRush" where
  "prepareRound shW shS index wordList g =
     (if index \<ge> length wordList then g\<lparr>gameState := GAME_OVER\<rparr>
      else
        (let currentWord = wordList ! index;
             otherWords = filter (\<lambda>w. id_v w \<noteq> id_v currentWord) wordList;
             shuffledOthers = take 3 (shW otherWords);
             roundOptions = shS (vietnameseDefinition currentWord
                                 # map vietnameseDefinition shuffledOthers)
         in g\<lparr>options_g := roundOptions, maxTime := newMaxTime index,
              timeLeft := newMaxTime index\<rparr>))"

text \<open>
  What \<open>handleAnswer\<close> schedules with \<open>setTimeout\<close>: the next round (with its index) or
  the end of the game, after a delay in milliseconds.
\<close>

datatype scheduled = NextRound nat nat | GameOver nat

text \<open>
  \<open>handleAnswer\<close> of the game, for the definition selected (\<open>None\<close> when the time ran
  out). It returns the state after its updates, what it scheduled, and whether it
  triggered confetti. Reading the definition of \<open>undefined\<close>, when no word is at the
  current index, throws.
\<close>

definition handleAnswer_game :: "(real \<Rightarrow> real \<Rightarrow> real) \<Rightarrow> WordRush \<Rightarrow> string option
    \<Rightarrow> error + WordRush \<times> scheduled \<times> bool" where
  "handleAnswer_game fmul g selectedDefinition =
     (case elemAt (words g) (int (currentIndex g)) of
        None \<Rightarrow> Inl TypeError
      | Some currentWord \<Rightarrow>
          if selectedDefinition = Some (vietnameseDefinition currentWord) then
            (let points = 100 + \<lceil>fmul (timeLeft g) 10\<rceil> + streak g * 5
             in Inr (g\<lparr>score := score g + points, streak := streak g + 1, feedback_g := Some HIT\<rparr>,
                     NextRound 400 (currentIndex g + 1), streak g > 2))
          else
            Inr (g\<lparr>lives := lives g - 1, streak := 0, feedback_g := Some MISS\<rparr>,
                 if lives g \<le> 1 then GameOver 1000 else NextRound 1000 (currentIndex g + 1),
                 False))"

text \<open>The callbacks of the two timeouts.\<close>

definition nextRound :: "(VocabularyItem list \<Rightarrow> VocabularyItem list) \<Rightarrow> (string list \<Rightarrow> string list)
    \<Rightarrow> nat \<Rightarrow> WordRush \<Rightarrow> WordRush" where
  "nextRound shW shS nextIdx g =
     prepareRound shW shS nextIdx (words g) (g\<lparr>feedback_g := None, currentIndex := nextIdx\<rparr>)"

definition gameOver :: "WordRush \<Rightarrow> WordRush" where
  "gameOver g = g\<lparr>gameState := GAME_OVER\<rparr>"

text \<open>The state when the words have been loaded, before the first round is prepared.\<close>

definition loadedGame :: "VocabularyItem list \<Rightarrow> WordRush" where
  "loadedGame data =
     \<lparr>gameState = PLAYING, words = data, currentIndex = 0, score = 0, lives = 3, timeLeft = 10,
      maxTime = 10, options_g = [], playerName = [], streak = 0, feedback_g = None\<rparr>"

section \<open>Claims about Word Rush\<close>

lemma floor_third: "\<lfloor>real i / 3\<rfloor> = int (i div 3)"
  using floor_divide_of_nat_eq [of i 3, where ?'a = real] by simp

lemma newMaxTime_int: "newMaxTime i = of_int (max 3 (10 - int (i div 3)))"
  unfolding newMaxTime_def floor_third by (simp add: max_def)

text \<open>
  C8. The time budget \<open>prepareRound\<close> sets for the round at index \<open>i\<close> (there is a word
  at \<open>i\<close>) is \<open>max(3, 10 - floor(i / 3))\<close>, for the countdown as well; the budget never
  grows with the index and is never below 3.
\<close>

theorem round_budget:
  "(i < length wordList \<longrightarrow>
      maxTime (prepareRound shW shS i wordList g) = of_int (max 3 (10 - int (i div 3)))
      \<and> timeLeft (prepareRound shW shS i wordList g) = of_int (max 3 (10 - int (i div 3))))
   \<and> newMaxTime i = of_int (max 3 (10 - int (i div 3)))
   \<and> newMaxTime (i + 1) \<le> newMaxTime i
   \<and> (i \<le> j \<longrightarrow> newMaxTime j \<le> newMaxTime i)
   \<and> 3 \<le> newMaxTime i"
proof -
  have set: "maxTime (prepareRound shW shS i wordList g) = newMaxTime i
      \<and> timeLeft (prepareRound shW shS i wordList g) = newMaxTime i" if "i < length wordList"
    using that by (simp add: prepareRound_def Let_def)
  have mono: "newMaxTime j \<le> newMaxTime i" if "i \<le> j" for j
  proof -
    from that have "i div 3 \<le> j div 3" by (rule div_le_mono)
    then have "max 3 (10 - int (j div 3)) \<le> max 3 (10 - int (i div 3))" by simp
    then show ?thesis unfolding newMaxTime_int by simp
  qed
  have low: "3 \<le> newMaxTime i"
    unfolding newMaxTime_int by simp
  from set mono [of "i + 1"] mono [of j] low show ?thesis
    by (simp add: newMaxTime_int)
qed

theorem round_budget_witness:
  "(4::nat) < length lesson
   \<and> maxTime (prepareRound rev rev 4 lesson (loadedGame lesson)) = 9
   \<and> timeLeft (prepareRound rev rev 4 lesson (loadedGame lesson)) = 9
   \<and> newMaxTime 4 = 9
   \<and> newMaxTime (4 + 1) \<le> newMaxTime 4
   \<and> (4::nat) \<le> 30
   \<and> newMaxTime 30 \<le> newMaxTime 4
   \<and> newMaxTime 30 = 3"
proof -
  have "newMaxTime 30 = 3"
    using round_budget [of 30 lesson rev rev "loadedGame lesson" 30] by simp
  then show ?thesis
    using round_budget [of 4 lesson rev rev "loadedGame lesson" 30] length_lesson by simp
qed

text \<open>
  C9. When the definition selected is the Vietnamese definition of the current word, with
  \<open>t\<close> the time left and \<open>s\<close> the streak at that moment, \<open>handleAnswer\<close> adds exactly
  \<open>100 + ceil(t * 10) + 5 * s\<close> to the score, the product being the one of the language,
  and adds 1 to the streak; the lives stay as they are.
\<close>

theorem hit_points:
  assumes "elemAt (words g) (int (currentIndex g)) = Some currentWord"
    and "selectedDefinition = Some (vietnameseDefinition currentWord)"
  shows "\<exists>g' sch confetti.
           handleAnswer_game fmul g selectedDefinition = Inr (g', sch, confetti)
           \<and> score g' = score g + (100 + \<lceil>fmul (timeLeft g) 10\<rceil> + 5 * streak g)
           \<and> streak g' = streak g + 1
           \<and> lives g' = lives g"
  using assms by (simp add: handleAnswer_game_def Let_def)

definition midGame :: WordRush where
  "midGame = (loadedGame lesson)\<lparr>currentIndex := 1, score := 150, streak := 2, timeLeft := 7.35\<rparr>"

theorem hit_points_witness:
  "elemAt (words midGame) (int (currentIndex midGame)) = Some (mkItem ''v1'' ''dog'' ''cho'')
   \<and> vietnameseDefinition (mkItem ''v1'' ''dog'' ''cho'') = ''cho''
   \<and> (\<exists>g' sch confetti.
         handleAnswer_game (*) midGame (Some ''cho'') = Inr (g', sch, confetti)
         \<and> score g' = 150 + (100 + 74 + 5 * 2)
         \<and> streak g' = 3)"
proof -
  have cur: "elemAt (words midGame) (int (currentIndex midGame)) = Some (mkItem ''v1'' ''dog'' ''cho'')"
    by (simp add: midGame_def loadedGame_def elemAt_def lesson_def)
  have sel: "Some ''cho'' = Some (vietnameseDefinition (mkItem ''v1'' ''dog'' ''cho''))"
    by (simp add: mkItem_def)
  have t: "\<lceil>timeLeft midGame * 10\<rceil> = 74"
    by (simp add: midGame_def ceiling_eq_iff)
  have s: "score midGame = 150" "streak midGame = 2"
    by (simp_all add: midGame_def)
  from hit_points [OF cur sel, of "(*)"]
  have "\<exists>g' sch confetti.
         handleAnswer_game (*) midGame (Some ''cho'') = Inr (g', sch, confetti)
         \<and> score g' = 150 + (100 + 74 + 5 * 2)
         \<and> streak g' = 3"
    unfolding t s by auto
  with cur sel show ?thesis by simp
qed

end
